theory Spec2Isabelle
  imports Complex_Main "HOL-Library.Multiset" "HOL-Library.Log_Nat"
begin

section \<open>NutriGenie: the food table, intake aggregation, gap analysis, comparison\<close>

text \<open>
  A shallow embedding of \<^verbatim>\<open>food_database.py\<close>, \<^verbatim>\<open>nutrition_analyzer.py\<close>,
  \<^verbatim>\<open>food_comparator.py\<close> and \<^verbatim>\<open>smart_recommendations.py\<close>.

  Every exception the code can raise is a value of \<open>error\<close>, and a function that can raise
  returns \<open>error + 'a\<close> with \<open>Inl\<close> the exception. A number is a \<^typ>\<open>real\<close>; a Python
  float is the real it denotes. The aggregation and the gap analysis round the result of every
  arithmetic operation to the nearest double (\<open>to_double\<close> below), as Python does. The
  comparison of two foods, the similarity distance and the recommendation engine are written
  with exact arithmetic. Infinities and NaN are not represented.
\<close>

subsection \<open>Errors, cells, rows and the table\<close>

datatype error =
    IndexError
  | KeyError string
  | TypeError
  | AttributeError
  | ValueError
  | ZeroDivisionError

text \<open>
  A cell of the pandas table is a string or a number. A row (a pandas \<open>Series\<close>) is the
  list of its (column, cell) pairs; the table (a \<open>DataFrame\<close>) has its column names and
  its rows in table order.
\<close>

datatype cell = Str string | Num real

type_synonym Series = "(string \<times> cell) list"

record DataFrame =
  columns :: "string list"
  rows :: "Series list"

text \<open>\<^verbatim>\<open>row[c]\<close>: raises KeyError when the row has no column \<open>c\<close>.\<close>

definition series_get :: "Series \<Rightarrow> string \<Rightarrow> error + cell" where
  "series_get row c = (case map_of row c of None \<Rightarrow> Inl (KeyError c) | Some v \<Rightarrow> Inr v)"

text \<open>\<^verbatim>\<open>row.get(c, 0)\<close>: the default instead of KeyError.\<close>

definition series_get_default :: "Series \<Rightarrow> string \<Rightarrow> cell \<Rightarrow> cell" where
  "series_get_default row c d = (case map_of row c of None \<Rightarrow> d | Some v \<Rightarrow> v)"

text \<open>A number used in arithmetic or an ordering comparison; a string there raises TypeError.\<close>

fun as_float :: "cell \<Rightarrow> error + real" where
  "as_float (Num x) = Inr x"
| "as_float (Str s) = Inl TypeError"

subsection \<open>Double precision\<close>

text \<open>
  IEEE 754 binary64 arithmetic returns the exact result rounded to the nearest number with a
  53-bit significand, a tie going to the even significand. \<open>exponent x\<close> is the integer \<open>e\<close>
  with \<open>2^e \<le> |x| < 2^(e+1)\<close>, computed from the number of bits of an integer, and
  \<open>to_double x\<close> rounds \<open>x\<close> to the nearest multiple of \<open>2^(e - 52)\<close>. The exponent is not
  bounded: overflow to infinity and subnormal numbers are not represented.
\<close>

definition round_half_even :: "real \<Rightarrow> int" where
  "round_half_even x =
     (let f = \<lfloor>x\<rfloor>; r = x - of_int f
      in if r < 1 / 2 then f else if r > 1 / 2 then f + 1 else if even f then f else f + 1)"

definition pow2 :: "int \<Rightarrow> real" where
  "pow2 k = (if 0 \<le> k then 2 ^ nat k else 1 / 2 ^ nat (- k))"

definition exponent :: "real \<Rightarrow> int" where
  "exponent x =
     (let a = \<bar>x\<bar>
      in if 1 \<le> a then int (floorlog 2 (nat \<lfloor>a\<rfloor>)) - 1
         else - int (floorlog 2 (nat (\<lceil>1 / a\<rceil> - 1))))"

definition to_double :: "real \<Rightarrow> real" where
  "to_double x =
     (if x = 0 then 0
      else let ulp = pow2 (exponent x - 52)
           in of_int (round_half_even (x / ulp)) * ulp)"

text \<open>Python's \<^verbatim>\<open>+\<close>, \<^verbatim>\<open>-\<close>, \<^verbatim>\<open>*\<close> and \<^verbatim>\<open>/\<close> on floats (the divisor is not 0).\<close>

definition fadd :: "real \<Rightarrow> real \<Rightarrow> real" where
  "fadd x y = to_double (x + y)"

definition fsub :: "real \<Rightarrow> real \<Rightarrow> real" where
  "fsub x y = to_double (x - y)"

definition fmul :: "real \<Rightarrow> real \<Rightarrow> real" where
  "fmul x y = to_double (x * y)"

definition fdiv :: "real \<Rightarrow> real \<Rightarrow> real" where
  "fdiv x y = to_double (x / y)"

subsection \<open>\<^verbatim>\<open>str.lower\<close>\<close>

text \<open>Lower-casing of the ASCII letters; other bytes are left as they are.\<close>

definition lower_char :: "char \<Rightarrow> char" where
  "lower_char c =
     (case map_of (zip ''ABCDEFGHIJKLMNOPQRSTUVWXYZ'' ''abcdefghijklmnopqrstuvwxyz'') c of
        None \<Rightarrow> c
      | Some l \<Rightarrow> l)"

definition lower :: "string \<Rightarrow> string" where
  "lower s = map lower_char s"

subsection \<open>\<^verbatim>\<open>FoodDatabase.get_food_nutrition\<close>\<close>

text \<open>
  A \<open>FoodNutrient\<close> object is the list of its attributes with their values, in the order of
  the dataclass. The values are the cells of the row as they are: the dataclass does not
  check them.
\<close>

type_synonym FoodNutrient = "(string \<times> cell) list"

text \<open>The attribute and the column it is read from, in the order of the constructor call.\<close>

definition nutrient_fields :: "(string \<times> string) list" where
  "nutrient_fields =
    [(''food_name'', ''food''),
     (''calories'', ''Caloric Value''),
     (''fat'', ''Fat''),
     (''saturated_fats'', ''Saturated Fats''),
     (''monounsaturated_fats'', ''Monounsaturated Fats''),
     (''polyunsaturated_fats'', ''Polyunsaturated Fats''),
     (''carbs'', ''Carbohydrates''),
     (''sugars'', ''Sugars''),
     (''protein'', ''Protein''),
     (''fiber'', ''Dietary Fiber''),
     (''cholesterol'', ''Cholesterol''),
     (''sodium'', ''Sodium''),
     (''water'', ''Water''),
     (''vitamin_a'', ''Vitamin A''),
     (''vitamin_b1'', ''Vitamin B1''),
     (''vitamin_b2'', ''Vitamin B2''),
     (''vitamin_b3'', ''Vitamin B3''),
     (''vitamin_b5'', ''Vitamin B5''),
     (''vitamin_b6'', ''Vitamin B6''),
     (''vitamin_b12'', ''Vitamin B12''),
     (''vitamin_c'', ''Vitamin C''),
     (''vitamin_d'', ''Vitamin D''),
     (''vitamin_e'', ''Vitamin E''),
     (''vitamin_k'', ''Vitamin K''),
     (''calcium'', ''Calcium''),
     (''copper'', ''Copper''),
     (''iron'', ''Iron''),
     (''magnesium'', ''Magnesium''),
     (''manganese'', ''Manganese''),
     (''phosphorus'', ''Phosphorus''),
     (''potassium'', ''Potassium''),
     (''selenium'', ''Selenium''),
     (''zinc'', ''Zinc''),
     (''nutrition_density'', ''Nutrition Density'')]"

text \<open>The constructor call: each argument reads its column, the first missing one raises.\<close>

fun make_food_nutrient :: "Series \<Rightarrow> (string \<times> string) list \<Rightarrow> error + FoodNutrient" where
  "make_food_nutrient row [] = Inr []"
| "make_food_nutrient row ((a, c) # fs) =
     (case series_get row c of
        Inl e \<Rightarrow> Inl e
      | Inr v \<Rightarrow>
          (case make_food_nutrient row fs of
             Inl e \<Rightarrow> Inl e
           | Inr rest \<Rightarrow> Inr ((a, v) # rest)))"

text \<open>
  \<^verbatim>\<open>self.food_data['food'].str.lower() == food_name\<close>, row by row: a cell that is not a
  string does not match.
\<close>

fun name_matches :: "string \<Rightarrow> Series \<Rightarrow> bool" where
  "name_matches name row =
     (case map_of row ''food'' of
        Some (Str s) \<Rightarrow> lower s = name
      | _ \<Rightarrow> False)"

text \<open>\<^verbatim>\<open>.iloc[0]\<close>: the first row, IndexError on an empty selection.\<close>

definition iloc0 :: "Series list \<Rightarrow> error + Series" where
  "iloc0 rs = (case rs of [] \<Rightarrow> Inl IndexError | r # _ \<Rightarrow> Inr r)"

text \<open>
  \<^verbatim>\<open>
  food_name = food_name.lower()
  row = self.food_data[self.food_data['food'].str.lower() == food_name].iloc[0]
  if row.empty:
      return None
  return FoodNutrient(food_name=row['food'], calories=row['Caloric Value'], ...)
  \<close>
  The result \<open>Inr None\<close> is Python's \<open>None\<close>.
\<close>

definition get_food_nutrition :: "DataFrame \<Rightarrow> string \<Rightarrow> error + FoodNutrient option" where
  "get_food_nutrition db food_name =
     (if ''food'' \<notin> set (columns db) then Inl (KeyError ''food'')
      else
        (case iloc0 (filter (name_matches (lower food_name)) (rows db)) of
           Inl e \<Rightarrow> Inl e
         | Inr row \<Rightarrow>
             if row = [] then Inr None
             else
               (case make_food_nutrient row nutrient_fields of
                  Inl e \<Rightarrow> Inl e
                | Inr f \<Rightarrow> Inr (Some f))))"

subsection \<open>\<^verbatim>\<open>NutritionAnalyzer.analyze_daily_intake\<close>\<close>

text \<open>A Python dict from nutrient names to numbers.\<close>

type_synonym nutrient_dict = "string \<rightharpoonup> real"

text \<open>\<^verbatim>\<open>d.get(k, 0)\<close>\<close>

definition dict_get :: "nutrient_dict \<Rightarrow> string \<Rightarrow> real" where
  "dict_get d k = (case d k of None \<Rightarrow> 0 | Some v \<Rightarrow> v)"

text \<open>The eight keys of \<open>total_nutrition\<close>, in the order of the eight \<open>+=\<close> lines.\<close>

definition tracked_nutrients :: "string list" where
  "tracked_nutrients =
     [''calories'', ''protein'', ''carbs'', ''fat'', ''fiber'', ''vitamin_c'', ''iron'', ''calcium'']"

definition initial_totals :: nutrient_dict where
  "initial_totals = map_of (map (\<lambda>k. (k, 0)) tracked_nutrients)"

text \<open>\<^verbatim>\<open>nutrition.calories\<close>: reading an attribute of the object.\<close>

definition attribute :: "FoodNutrient \<Rightarrow> string \<Rightarrow> error + cell" where
  "attribute f a = (case map_of f a of None \<Rightarrow> Inl AttributeError | Some v \<Rightarrow> Inr v)"

text \<open>
  \<^verbatim>\<open>total_nutrition[k] += nutrition.k * scale_factor\<close> for each key in turn, the product
  and the sum each rounded to a double; a value that is not a number raises TypeError at the
  multiplication.
\<close>

fun add_scaled :: "FoodNutrient \<Rightarrow> real \<Rightarrow> string list \<Rightarrow> nutrient_dict \<Rightarrow> error + nutrient_dict" where
  "add_scaled f scale_factor [] totals = Inr totals"
| "add_scaled f scale_factor (k # ks) totals =
     (case attribute f k of
        Inl e \<Rightarrow> Inl e
      | Inr c \<Rightarrow>
          (case as_float c of
             Inl e \<Rightarrow> Inl e
           | Inr v \<Rightarrow>
               add_scaled f scale_factor ks
                 (totals(k \<mapsto> fadd (dict_get totals k) (fmul v scale_factor)))))"

text \<open>
  The loop over \<^verbatim>\<open>zip(consumed_foods, quantities)\<close>. An exception of the lookup leaves
  the loop; \<^verbatim>\<open>if nutrition:\<close> skips the entry when the lookup returned \<open>None\<close>;
  \<^verbatim>\<open>scale_factor = quantity / 100\<close> is a double.
\<close>

fun analyze_loop :: "DataFrame \<Rightarrow> (string \<times> real) list \<Rightarrow> nutrient_dict \<Rightarrow> error + nutrient_dict" where
  "analyze_loop db [] totals = Inr totals"
| "analyze_loop db ((food, quantity) # es) totals =
     (case get_food_nutrition db food of
        Inl e \<Rightarrow> Inl e
      | Inr None \<Rightarrow> analyze_loop db es totals
      | Inr (Some nutrition) \<Rightarrow>
          (case add_scaled nutrition (fdiv quantity 100) tracked_nutrients totals of
             Inl e \<Rightarrow> Inl e
           | Inr totals' \<Rightarrow> analyze_loop db es totals'))"

definition analyze_daily_intake :: "DataFrame \<Rightarrow> string list \<Rightarrow> real list \<Rightarrow> error + nutrient_dict" where
  "analyze_daily_intake db consumed_foods quantities =
     analyze_loop db (zip consumed_foods quantities) initial_totals"

subsection \<open>\<^verbatim>\<open>NutritionAnalyzer.identify_nutritional_gaps\<close>\<close>

record NutrientGap =
  current :: real
  target :: real
  deficit :: real
  percentage :: real

text \<open>
  \<open>targets\<close> is the dict in its iteration order, a list of (nutrient, target) pairs.
  \<^verbatim>\<open>current / target\<close> raises ZeroDivisionError when the target is 0; it is only
  evaluated once the test \<^verbatim>\<open>current < target * 0.8\<close> has passed. The literal \<^verbatim>\<open>0.8\<close> is
  the double nearest to 0.8, and the threshold, the deficit and the percentage are rounded to
  doubles.
\<close>

fun gaps_loop :: "nutrient_dict \<Rightarrow> (string \<times> real) list \<Rightarrow> (string \<rightharpoonup> NutrientGap) \<Rightarrow> error + (string \<rightharpoonup> NutrientGap)" where
  "gaps_loop intake [] gaps = Inr gaps"
| "gaps_loop intake ((nutrient, tgt) # ts) gaps =
     (let cur = dict_get intake nutrient in
      if cur < fmul tgt (to_double 0.8) then
        (if tgt = 0 then Inl ZeroDivisionError
         else gaps_loop intake ts
                (gaps(nutrient \<mapsto>
                   \<lparr>current = cur, target = tgt, deficit = fsub tgt cur,
                    percentage = fmul (fdiv cur tgt) 100\<rparr>)))
      else gaps_loop intake ts gaps)"

definition identify_nutritional_gaps :: "nutrient_dict \<Rightarrow> (string \<times> real) list \<Rightarrow> error + (string \<rightharpoonup> NutrientGap)" where
  "identify_nutritional_gaps intake targets = gaps_loop intake targets Map.empty"

subsection \<open>\<^verbatim>\<open>FoodComparator.compare_foods\<close>\<close>

record NutrientComparison =
  food1_value :: real
  food2_value :: real
  difference :: real
  percentage_diff :: real
  better_food :: string

record Comparison =
  food1 :: string
  food2 :: string
  comparison :: "string \<rightharpoonup> NutrientComparison"

definition default_nutrients :: "string list" where
  "default_nutrients =
     [''calories'', ''fat'', ''carbs'', ''protein'', ''fiber'', ''sodium'', ''vitamin_c'', ''iron'']"

text \<open>\<^verbatim>\<open>getattr(obj, name, 0)\<close>\<close>

definition getattr :: "FoodNutrient \<Rightarrow> string \<Rightarrow> cell" where
  "getattr f a = (case map_of f a of None \<Rightarrow> Num 0 | Some v \<Rightarrow> v)"

text \<open>
  One round of the loop over \<open>nutrients\<close>. When either value is a string, the subtraction
  \<^verbatim>\<open>value1 - value2\<close> (in the percentage or in \<open>difference\<close>) raises TypeError on every path,
  so the two values are converted first.
\<close>

definition compare_nutrient :: "string \<Rightarrow> string \<Rightarrow> FoodNutrient \<Rightarrow> FoodNutrient \<Rightarrow> string \<Rightarrow> error + NutrientComparison" where
  "compare_nutrient a b food1_nutrition food2_nutrition nutrient =
     (case as_float (getattr food1_nutrition nutrient) of
        Inl e \<Rightarrow> Inl e
      | Inr value1 \<Rightarrow>
          (case as_float (getattr food2_nutrition nutrient) of
             Inl e \<Rightarrow> Inl e
           | Inr value2 \<Rightarrow>
               (let diff_percent =
                      (if value1 = 0 \<and> value2 = 0 then 0
                       else if value2 \<noteq> 0 then ((value1 - value2) / value2) * 100 else 100)
                in Inr \<lparr>food1_value = value1, food2_value = value2,
                         difference = value1 - value2,
                         percentage_diff = diff_percent,
                         better_food = (if diff_percent > 0 then a else b)\<rparr>)))"

fun compare_loop :: "string \<Rightarrow> string \<Rightarrow> FoodNutrient \<Rightarrow> FoodNutrient \<Rightarrow> string list \<Rightarrow> (string \<rightharpoonup> NutrientComparison) \<Rightarrow> error + (string \<rightharpoonup> NutrientComparison)" where
  "compare_loop a b n1 n2 [] acc = Inr acc"
| "compare_loop a b n1 n2 (nutrient # ns) acc =
     (case compare_nutrient a b n1 n2 nutrient of
        Inl e \<Rightarrow> Inl e
      | Inr c \<Rightarrow> compare_loop a b n1 n2 ns (acc(nutrient \<mapsto> c)))"

text \<open>
  Both lookups run before the test for \<open>None\<close>, which raises ValueError.
  \<open>nutrients = None\<close> stands for the eight default nutrients.
\<close>

definition compare_foods :: "DataFrame \<Rightarrow> string \<Rightarrow> string \<Rightarrow> string list option \<Rightarrow> error + Comparison" where
  "compare_foods db a b nutrients =
     (let ns = (case nutrients of None \<Rightarrow> default_nutrients | Some l \<Rightarrow> l) in
      case get_food_nutrition db a of
        Inl e \<Rightarrow> Inl e
      | Inr food1_nutrition \<Rightarrow>
          (case get_food_nutrition db b of
             Inl e \<Rightarrow> Inl e
           | Inr food2_nutrition \<Rightarrow>
               (case (food1_nutrition, food2_nutrition) of
                  (Some n1, Some n2) \<Rightarrow>
                    (case compare_loop a b n1 n2 ns Map.empty of
                       Inl e \<Rightarrow> Inl e
                     | Inr c \<Rightarrow> Inr \<lparr>food1 = a, food2 = b, comparison = c\<rparr>)
                | _ \<Rightarrow> Inl ValueError)))"

subsection \<open>\<^verbatim>\<open>FoodComparator.find_similar_foods\<close>\<close>

text \<open>\<^verbatim>\<open>xs[:k]\<close>: a negative \<open>k\<close> drops the last \<open>-k\<close> elements.\<close>

definition py_slice_to :: "'a list \<Rightarrow> int \<Rightarrow> 'a list" where
  "py_slice_to xs k =
     (if 0 \<le> k then take (nat k) xs else take (length xs - nat (- k)) xs)"

definition key_nutrients :: "string list" where
  "key_nutrients = [''calories'', ''protein'', ''fat'', ''carbs'', ''fiber'']"

text \<open>
  \<^verbatim>\<open>
  value = getattr(target_nutrition, nutrient, 0)
  diff = abs(value - row[nutrient])
  score += diff
  \<close>
  \<^verbatim>\<open>row[nutrient]\<close> is evaluated before the subtraction, so a missing column raises KeyError
  before a string raises TypeError.
\<close>

fun similarity_score :: "FoodNutrient \<Rightarrow> Series \<Rightarrow> string list \<Rightarrow> real \<Rightarrow> error + real" where
  "similarity_score target_nutrition row [] score = Inr score"
| "similarity_score target_nutrition row (nutrient # ns) score =
     (case series_get row nutrient of
        Inl e \<Rightarrow> Inl e
      | Inr c \<Rightarrow>
          (case as_float (getattr target_nutrition nutrient) of
             Inl e \<Rightarrow> Inl e
           | Inr v \<Rightarrow>
               (case as_float c of
                  Inl e \<Rightarrow> Inl e
                | Inr x \<Rightarrow> similarity_score target_nutrition row ns (score + \<bar>v - x\<bar>))))"

text \<open>
  The loop over \<^verbatim>\<open>all_foods.iterrows()\<close>: a row whose \<^verbatim>\<open>food_name\<close> cell equals the
  argument \<open>food\<close> is skipped, every other row is appended with its score.
\<close>

fun similarities_loop :: "string \<Rightarrow> FoodNutrient \<Rightarrow> Series list \<Rightarrow> (cell \<times> real) list \<Rightarrow> error + (cell \<times> real) list" where
  "similarities_loop food target_nutrition [] similarities = Inr similarities"
| "similarities_loop food target_nutrition (row # rs) similarities =
     (case series_get row ''food_name'' of
        Inl e \<Rightarrow> Inl e
      | Inr name \<Rightarrow>
          if name = Str food then similarities_loop food target_nutrition rs similarities
          else
            (case similarity_score target_nutrition row key_nutrients 0 of
               Inl e \<Rightarrow> Inl e
             | Inr score \<Rightarrow>
                 similarities_loop food target_nutrition rs (similarities @ [(name, score)])))"

text \<open>\<^verbatim>\<open>all_foods[all_foods['category'] == category]\<close>\<close>

definition select_category :: "DataFrame \<Rightarrow> string \<Rightarrow> error + DataFrame" where
  "select_category df category =
     (if ''category'' \<notin> set (columns df) then Inl (KeyError ''category'')
      else Inr (df\<lparr>rows := filter (\<lambda>r. map_of r ''category'' = Some (Str category)) (rows df)\<rparr>))"

text \<open>
  \<^verbatim>\<open>similarities.sort(key=lambda x: x[1])\<close> is a stable ascending sort, as \<^const>\<open>sort_key\<close> is.
  \<^verbatim>\<open>if category:\<close> takes neither \<open>None\<close> nor the empty string.
\<close>

definition find_similar_foods :: "DataFrame \<Rightarrow> string \<Rightarrow> string option \<Rightarrow> int \<Rightarrow> error + cell list" where
  "find_similar_foods db food category max_results =
     (case get_food_nutrition db food of
        Inl e \<Rightarrow> Inl e
      | Inr None \<Rightarrow> Inr []
      | Inr (Some target_nutrition) \<Rightarrow>
          (case (case category of
                   None \<Rightarrow> Inr db
                 | Some c \<Rightarrow> if c = [] then Inr db else select_category db c) of
             Inl e \<Rightarrow> Inl e
           | Inr all_foods \<Rightarrow>
               (case similarities_loop food target_nutrition (rows all_foods) [] of
                  Inl e \<Rightarrow> Inl e
                | Inr similarities \<Rightarrow>
                    Inr (map fst (py_slice_to (sort_key snd similarities) max_results)))))"

subsection \<open>\<^verbatim>\<open>SmartRecommendations\<close>\<close>

text \<open>
  The user profile is a dict from keys to values; \<^verbatim>\<open>user_profile[k]\<close> raises KeyError
  when the key is missing. A string method on a number raises AttributeError.
\<close>

type_synonym profile = "(string \<times> cell) list"

definition profile_get :: "profile \<Rightarrow> string \<Rightarrow> error + cell" where
  "profile_get p k = (case map_of p k of None \<Rightarrow> Inl (KeyError k) | Some v \<Rightarrow> Inr v)"

fun as_str :: "cell \<Rightarrow> error + string" where
  "as_str (Str s) = Inr s"
| "as_str (Num x) = Inl AttributeError"

definition activity_multipliers :: "(string \<times> real) list" where
  "activity_multipliers =
     [(''sedentary'', 1.2), (''light'', 1.375), (''moderate'', 1.55),
      (''heavy'', 1.725), (''very_heavy'', 1.9)]"

text \<open>
  \<^verbatim>\<open>
  if gender.lower() == 'male':
      bmr = 10 * weight + 6.25 * height - 5 * age + 5
  else:
      bmr = 10 * weight + 6.25 * height - 5 * age - 161
  return bmr * activity_multipliers.get(activity_level.lower(), 1.55)
  \<close>
\<close>

definition calculate_calorie_needs :: "cell \<Rightarrow> cell \<Rightarrow> cell \<Rightarrow> cell \<Rightarrow> cell \<Rightarrow> error + real" where
  "calculate_calorie_needs age weight height gender activity_level =
     (case as_str gender of
        Inl e \<Rightarrow> Inl e
      | Inr g \<Rightarrow>
     (case as_float weight of
        Inl e \<Rightarrow> Inl e
      | Inr w \<Rightarrow>
     (case as_float height of
        Inl e \<Rightarrow> Inl e
      | Inr h \<Rightarrow>
     (case as_float age of
        Inl e \<Rightarrow> Inl e
      | Inr a \<Rightarrow>
     (let bmr = (if lower g = ''male''
                 then 10 * w + 6.25 * h - 5 * a + 5
                 else 10 * w + 6.25 * h - 5 * a - 161)
      in case as_str activity_level of
           Inl e \<Rightarrow> Inl e
         | Inr l \<Rightarrow>
             Inr (bmr * (case map_of activity_multipliers (lower l) of
                           None \<Rightarrow> 1.55
                         | Some m \<Rightarrow> m)))))))"

definition calculate_protein_needs :: "cell \<Rightarrow> error + real" where
  "calculate_protein_needs weight =
     (case as_float weight of Inl e \<Rightarrow> Inl e | Inr w \<Rightarrow> Inr (w * 1.0))"

text \<open>
  \<^verbatim>\<open>_calculate_nutritional_gaps\<close> reads the five keys with \<^verbatim>\<open>user_profile[...]\<close>, in the
  order of the arguments of the call. The result is the dict of the three gaps in the order
  they are stored.
\<close>

definition calculate_nutritional_gaps :: "nutrient_dict \<Rightarrow> profile \<Rightarrow> error + (string \<times> real) list" where
  "calculate_nutritional_gaps current_nutrition user_profile =
     (case profile_get user_profile ''age'' of
        Inl e \<Rightarrow> Inl e
      | Inr age \<Rightarrow>
     (case profile_get user_profile ''weight'' of
        Inl e \<Rightarrow> Inl e
      | Inr weight \<Rightarrow>
     (case profile_get user_profile ''height'' of
        Inl e \<Rightarrow> Inl e
      | Inr height \<Rightarrow>
     (case profile_get user_profile ''gender'' of
        Inl e \<Rightarrow> Inl e
      | Inr gender \<Rightarrow>
     (case profile_get user_profile ''activity_level'' of
        Inl e \<Rightarrow> Inl e
      | Inr activity_level \<Rightarrow>
     (case calculate_calorie_needs age weight height gender activity_level of
        Inl e \<Rightarrow> Inl e
      | Inr calorie_needs \<Rightarrow>
     (case calculate_protein_needs weight of
        Inl e \<Rightarrow> Inl e
      | Inr protein_needs \<Rightarrow>
          Inr [(''calories'', calorie_needs - dict_get current_nutrition ''calories''),
               (''protein'', protein_needs - dict_get current_nutrition ''protein''),
               (''fiber'', 25 - dict_get current_nutrition ''fiber'')])))))))"

text \<open>
  \<^verbatim>\<open>_addresses_nutritional_gaps\<close>: the list \<open>scores\<close>, then
  \<^verbatim>\<open>len(scores) > 0 and max(scores) > 0.1\<close>. The comparison \<^verbatim>\<open>value > 0\<close> raises TypeError
  on a string.
\<close>

fun gap_scores :: "Series \<Rightarrow> (string \<times> real) list \<Rightarrow> error + real list" where
  "gap_scores food [] = Inr []"
| "gap_scores food ((nutrient, gap) # gs) =
     (if gap > 0 then
        (case as_float (series_get_default food nutrient (Num 0)) of
           Inl e \<Rightarrow> Inl e
         | Inr v \<Rightarrow>
             (case gap_scores food gs of
                Inl e \<Rightarrow> Inl e
              | Inr scores \<Rightarrow> Inr (if v > 0 then (v / gap) # scores else scores)))
      else gap_scores food gs)"

definition addresses_nutritional_gaps :: "Series \<Rightarrow> (string \<times> real) list \<Rightarrow> error + bool" where
  "addresses_nutritional_gaps food gaps =
     (case gap_scores food gaps of
        Inl e \<Rightarrow> Inl e
      | Inr scores \<Rightarrow> Inr (length scores > 0 \<and> Max (set scores) > 0.1))"

text \<open>
  \<^verbatim>\<open>_is_similar_to_current_intake\<close>: the first intake entry whose calorie
  \<^verbatim>\<open>percentage_diff\<close> against the candidate is below 20 returns \<open>True\<close>. An intake entry is
  the pair of its \<^verbatim>\<open>'food'\<close> and \<^verbatim>\<open>'quantity'\<close> values.
\<close>

fun is_similar_to_current_intake :: "DataFrame \<Rightarrow> Series \<Rightarrow> (string \<times> real) list \<Rightarrow> error + bool" where
  "is_similar_to_current_intake db food [] = Inr False"
| "is_similar_to_current_intake db food ((intake_food, quantity) # rest) =
     (case series_get food ''food_name'' of
        Inl e \<Rightarrow> Inl e
      | Inr c \<Rightarrow>
     (case as_str c of
        Inl e \<Rightarrow> Inl e
      | Inr name \<Rightarrow>
     (case compare_foods db name intake_food
             (Some [''calories'', ''protein'', ''fat'', ''carbs'']) of
        Inl e \<Rightarrow> Inl e
      | Inr result \<Rightarrow>
     (case comparison result ''calories'' of
        None \<Rightarrow> Inl (KeyError ''calories'')
      | Some entry \<Rightarrow>
          if percentage_diff entry < 20 then Inr True
          else is_similar_to_current_intake db food rest))))"

text \<open>\<^verbatim>\<open>_nutritional_gap_score\<close>: the sum of \<^verbatim>\<open>value / gap\<close> over the positive gaps.\<close>

fun nutritional_gap_score :: "Series \<Rightarrow> (string \<times> real) list \<Rightarrow> real \<Rightarrow> error + real" where
  "nutritional_gap_score food [] score = Inr score"
| "nutritional_gap_score food ((nutrient, gap) # gs) score =
     (if gap > 0 then
        (case as_float (series_get_default food nutrient (Num 0)) of
           Inl e \<Rightarrow> Inl e
         | Inr v \<Rightarrow> nutritional_gap_score food gs (score + v / gap))
      else nutritional_gap_score food gs score)"

text \<open>
  The dietary restrictions, one filter after the other. A boolean column holds 1 for
  \<open>True\<close>, which is what \<^verbatim>\<open>== True\<close> tests.
\<close>

fun apply_restrictions :: "DataFrame \<Rightarrow> string list \<Rightarrow> error + DataFrame" where
  "apply_restrictions all_foods [] = Inr all_foods"
| "apply_restrictions all_foods (restriction # rs) =
     (if restriction = ''gluten-free'' then
        (if ''gluten_free'' \<notin> set (columns all_foods) then Inl (KeyError ''gluten_free'')
         else apply_restrictions
                (all_foods\<lparr>rows := filter (\<lambda>r. map_of r ''gluten_free'' = Some (Num 1)) (rows all_foods)\<rparr>) rs)
      else if restriction = ''vegan'' then
        (if ''category'' \<notin> set (columns all_foods) then Inl (KeyError ''category'')
         else apply_restrictions
                (all_foods\<lparr>rows := filter (\<lambda>r. map_of r ''category'' \<in>
                                     Some ` Str ` {''vegetables'', ''fruits'', ''legumes''}) (rows all_foods)\<rparr>) rs)
      else if restriction = ''dairy-free'' then
        (if ''category'' \<notin> set (columns all_foods) then Inl (KeyError ''category'')
         else apply_restrictions
                (all_foods\<lparr>rows := filter (\<lambda>r. map_of r ''category'' \<noteq> Some (Str ''dairy'')) (rows all_foods)\<rparr>) rs)
      else apply_restrictions all_foods rs)"

text \<open>The two tests of the loop body; a candidate survives when neither \<open>continue\<close> is taken.\<close>

definition candidate_survives :: "DataFrame \<Rightarrow> (string \<times> real) list \<Rightarrow> (string \<times> real) list \<Rightarrow> Series \<Rightarrow> error + bool" where
  "candidate_survives db gaps current_intake row =
     (case addresses_nutritional_gaps row gaps of
        Inl e \<Rightarrow> Inl e
      | Inr a \<Rightarrow>
          if \<not> a then Inr False
          else
            (case is_similar_to_current_intake db row current_intake of
               Inl e \<Rightarrow> Inl e
             | Inr similar \<Rightarrow> Inr (\<not> similar)))"

text \<open>
  The loop over the candidates, with its \<open>break\<close> once
  \<^verbatim>\<open>len(recommended_foods) >= num_recommendations * 2\<close>.
\<close>

fun recommend_loop :: "DataFrame \<Rightarrow> (string \<times> real) list \<Rightarrow> (string \<times> real) list \<Rightarrow> int \<Rightarrow> Series list \<Rightarrow> Series list \<Rightarrow> error + Series list" where
  "recommend_loop db gaps current_intake n [] recommended_foods = Inr recommended_foods"
| "recommend_loop db gaps current_intake n (row # rs) recommended_foods =
     (case candidate_survives db gaps current_intake row of
        Inl e \<Rightarrow> Inl e
      | Inr keep \<Rightarrow>
          if \<not> keep then recommend_loop db gaps current_intake n rs recommended_foods
          else
            (let recommended_foods' = recommended_foods @ [row] in
             if int (length recommended_foods') \<ge> n * 2 then Inr recommended_foods'
             else recommend_loop db gaps current_intake n rs recommended_foods'))"

text \<open>The sort keys, computed for every element before the list is sorted.\<close>

fun score_keys :: "(string \<times> real) list \<Rightarrow> Series list \<Rightarrow> error + (real \<times> Series) list" where
  "score_keys gaps [] = Inr []"
| "score_keys gaps (row # rs) =
     (case nutritional_gap_score row gaps 0 of
        Inl e \<Rightarrow> Inl e
      | Inr k \<Rightarrow>
          (case score_keys gaps rs of
             Inl e \<Rightarrow> Inl e
           | Inr ks \<Rightarrow> Inr ((k, row) # ks)))"

text \<open>
  \<^verbatim>\<open>sort(key=..., reverse=True)\<close> keeps elements with equal keys in their original order:
  it is the reverse of the stable ascending sort of the reversed list.
\<close>

definition sort_reverse :: "(real \<times> 'a) list \<Rightarrow> (real \<times> 'a) list" where
  "sort_reverse xs = rev (sort_key fst (rev xs))"

definition summary_fields :: "string list" where
  "summary_fields =
     [''food_name'', ''calories'', ''protein'', ''carbs'', ''fat'', ''fiber'', ''category'']"

text \<open>The dict returned for one food: each key reads the column of the same name.\<close>

fun summarize :: "Series \<Rightarrow> string list \<Rightarrow> error + (string \<times> cell) list" where
  "summarize food [] = Inr []"
| "summarize food (k # ks) =
     (case series_get food k of
        Inl e \<Rightarrow> Inl e
      | Inr v \<Rightarrow>
          (case summarize food ks of
             Inl e \<Rightarrow> Inl e
           | Inr rest \<Rightarrow> Inr ((k, v) # rest)))"

fun summarize_all :: "Series list \<Rightarrow> error + (string \<times> cell) list list" where
  "summarize_all [] = Inr []"
| "summarize_all (food # fs) =
     (case summarize food summary_fields of
        Inl e \<Rightarrow> Inl e
      | Inr d \<Rightarrow>
          (case summarize_all fs of
             Inl e \<Rightarrow> Inl e
           | Inr ds \<Rightarrow> Inr (d # ds)))"

text \<open>
  \<^verbatim>\<open>get_personalized_recommendations\<close>. The five \<^verbatim>\<open>user_profile.get(key, default)\<close>
  assignments at its start bind local variables that are never read, so they are not part of
  the model. \<^verbatim>\<open>if dietary_restrictions:\<close> takes neither \<open>None\<close> nor the empty list.
\<close>

definition get_personalized_recommendations :: "DataFrame \<Rightarrow> profile \<Rightarrow> (string \<times> real) list \<Rightarrow> string list option \<Rightarrow> int \<Rightarrow> error + (string \<times> cell) list list" where
  "get_personalized_recommendations db user_profile current_intake dietary_restrictions num_recommendations =
     (case analyze_daily_intake db (map fst current_intake) (map snd current_intake) of
        Inl e \<Rightarrow> Inl e
      | Inr current_nutrition \<Rightarrow>
     (case calculate_nutritional_gaps current_nutrition user_profile of
        Inl e \<Rightarrow> Inl e
      | Inr nutritional_gaps \<Rightarrow>
     (case (case dietary_restrictions of
              None \<Rightarrow> Inr db
            | Some rs \<Rightarrow> apply_restrictions db rs) of
        Inl e \<Rightarrow> Inl e
      | Inr all_foods \<Rightarrow>
     (case recommend_loop db nutritional_gaps current_intake num_recommendations (rows all_foods) [] of
        Inl e \<Rightarrow> Inl e
      | Inr recommended_foods \<Rightarrow>
     (case score_keys nutritional_gaps recommended_foods of
        Inl e \<Rightarrow> Inl e
      | Inr keyed \<Rightarrow>
          summarize_all (py_slice_to (map snd (sort_reverse keyed)) num_recommendations))))))"

section \<open>Tables and inputs the properties are stated on\<close>

text \<open>
  The columns that \<open>get_food_nutrition\<close> reads as nutrient values, and the rows of a table
  as the loader produces it: the \<^verbatim>\<open>food\<close> cell is a string and every nutrient cell a
  number.
\<close>

definition nutrient_columns :: "string list" where
  "nutrient_columns = map snd (tl nutrient_fields)"

fun is_num :: "cell \<Rightarrow> bool" where
  "is_num (Num x) = True"
| "is_num (Str s) = False"

fun is_str :: "cell \<Rightarrow> bool" where
  "is_str (Str s) = True"
| "is_str (Num x) = False"

definition catalog_row :: "Series \<Rightarrow> bool" where
  "catalog_row r =
     (is_str (series_get_default r ''food'' (Num 0)) \<and>
      list_all (\<lambda>c. is_num (series_get_default r c (Str []))) nutrient_columns)"

definition catalog :: "DataFrame \<Rightarrow> bool" where
  "catalog db = (''food'' \<in> set (columns db) \<and> list_all catalog_row (rows db))"

text \<open>A food is present when some row's name matches it, case-insensitively.\<close>

definition present :: "DataFrame \<Rightarrow> string \<Rightarrow> bool" where
  "present db food = list_ex (name_matches (lower food)) (rows db)"

text \<open>The object that the constructor call builds from a row that has every column.\<close>

definition row_record :: "Series \<Rightarrow> FoodNutrient" where
  "row_record r = map (\<lambda>(a, c). (a, series_get_default r c (Num 0))) nutrient_fields"

text \<open>The number held by an attribute, and the value the lookup gives for a food's nutrient.\<close>

definition float_attr :: "FoodNutrient \<Rightarrow> string \<Rightarrow> real" where
  "float_attr f k = (case getattr f k of Num x \<Rightarrow> x | Str s \<Rightarrow> 0)"

definition nutrient_of :: "DataFrame \<Rightarrow> string \<Rightarrow> string \<Rightarrow> real" where
  "nutrient_of db food k =
     (case get_food_nutrition db food of
        Inr (Some f) \<Rightarrow> float_attr f k
      | _ \<Rightarrow> 0)"

text \<open>
  The total of a nutrient as the loop accumulates it: from 0, in the order of the entries,
  the sum and each term rounded to a double. \<open>total_of\<close> reads a key of the dict that a call
  returned.
\<close>

definition accumulate :: "DataFrame \<Rightarrow> string \<Rightarrow> (string \<times> real) list \<Rightarrow> real" where
  "accumulate db k entries =
     foldl (\<lambda>acc (food, grams). fadd acc (fmul (nutrient_of db food k) (fdiv grams 100))) 0 entries"

definition total_of :: "error + nutrient_dict \<Rightarrow> string \<Rightarrow> real option" where
  "total_of r k = (case r of Inl e \<Rightarrow> None | Inr totals \<Rightarrow> totals k)"

text \<open>
  The table of the specification's scenarios: Apple and Banana with their calories, protein,
  carbohydrates, fat and fiber, every other nutrient 0.
\<close>

definition sample_row :: "string \<Rightarrow> real \<Rightarrow> real \<Rightarrow> real \<Rightarrow> real \<Rightarrow> real \<Rightarrow> Series" where
  "sample_row name cal prot carb ft fib =
     (''food'', Str name) #
     map (\<lambda>c. (c, Num (if c = ''Caloric Value'' then cal
                        else if c = ''Protein'' then prot
                        else if c = ''Carbohydrates'' then carb
                        else if c = ''Fat'' then ft
                        else if c = ''Dietary Fiber'' then fib
                        else 0)))
         nutrient_columns"

definition sample_db :: DataFrame where
  "sample_db = \<lparr>columns = ''food'' # nutrient_columns,
                 rows = [sample_row ''Apple'' 52 0.3 14 0.2 2.4,
                         sample_row ''Banana'' 89 1.1 23 0.3 2.6]\<rparr>"

text \<open>The record emitted for a flagged nutrient, and the inputs of the gap scenarios.\<close>

definition gap_of :: "nutrient_dict \<Rightarrow> string \<Rightarrow> real \<Rightarrow> NutrientGap" where
  "gap_of intake n t =
     \<lparr>current = dict_get intake n, target = t, deficit = fsub t (dict_get intake n),
      percentage = fmul (fdiv (dict_get intake n) t) 100\<rparr>"

definition sample_targets :: "(string \<times> real) list" where
  "sample_targets = [(''calories'', 2000), (''protein'', 75)]"

definition sample_intake :: nutrient_dict where
  "sample_intake = [''calories'' \<mapsto> 1000, ''protein'' \<mapsto> 70]"

text \<open>
  An intake at the 80% threshold: the iron value is the double written \<^verbatim>\<open>34.4\<close>, the
  target is 43. \<open>gap_at\<close> reads a key of the dict that the analysis returned.
\<close>

definition boundary_intake :: nutrient_dict where
  "boundary_intake = [''iron'' \<mapsto> to_double 34.4]"

definition boundary_targets :: "(string \<times> real) list" where
  "boundary_targets = [(''iron'', 43)]"

definition gap_at :: "error + (string \<rightharpoonup> NutrientGap) \<Rightarrow> string \<Rightarrow> NutrientGap option" where
  "gap_at r n = (case r of Inl e \<Rightarrow> None | Inr gaps \<Rightarrow> gaps n)"

text \<open>The nutrients a call of \<open>compare_foods\<close> compares.\<close>

definition compared :: "string list option \<Rightarrow> string list" where
  "compared nutrients = (case nutrients of None \<Rightarrow> default_nutrients | Some l \<Rightarrow> l)"







definition full_profile :: profile where
  "full_profile =
     [(''age'', Num 30), (''weight'', Num 70), (''height'', Num 160),
      (''gender'', Str ''male''), (''activity_level'', Str ''sedentary'')]"

definition app_profile :: profile where
  "app_profile =
     [(''age'', Num 30), (''weight'', Num 70), (''height'', Num 160),
      (''gender'', Str ''male''), (''activity'', Str ''sedentary'')]"

definition menu_gaps :: "(string \<times> real) list" where
  "menu_gaps = [(''calories'', 1866), (''protein'', 70), (''fiber'', 25)]"

text \<open>
  The sample table with, in addition, the columns that \<open>find_similar_foods\<close> reads, holding
  the same values.
\<close>

definition mixed_row :: "string \<Rightarrow> real \<Rightarrow> real \<Rightarrow> real \<Rightarrow> real \<Rightarrow> real \<Rightarrow> Series" where
  "mixed_row name cal prot carb ft fib =
     sample_row name cal prot carb ft fib @
     [(''food_name'', Str name), (''calories'', Num cal), (''protein'', Num prot),
      (''carbs'', Num carb), (''fat'', Num ft), (''fiber'', Num fib),
      (''category'', Str ''fruits'')]"

definition mixed_db :: DataFrame where
  "mixed_db = \<lparr>columns = ''food'' # nutrient_columns @ summary_fields,
                rows = [mixed_row ''Apple'' 52 0.3 14 0.2 2.4,
                        mixed_row ''Banana'' 89 1.1 23 0.3 2.6]\<rparr>"

section \<open>Double-precision rounding\<close>

text \<open>
  The rounding function used by the aggregation and by the gap analysis behaves as
  round-to-nearest with a 53-bit significand: \<open>exponent x\<close> is the binary exponent of
  \<open>x\<close>, the result is a multiple of the unit in the last place whose significand has 53 bits,
  it is within half a unit of the argument, and integers below \<open>2 ^ 53\<close> are exact.
\<close>

lemma pow2_powr: "pow2 k = 2 powr (of_int k)"
  by (auto simp: pow2_def powr_realpow [symmetric] powr_minus divide_inverse)

lemma pow2_pos: "0 < pow2 k"
  by (simp add: pow2_powr)

lemma pow2_add: "pow2 (j + k) = pow2 j * pow2 k"
  by (simp add: pow2_powr powr_add)

lemma floorlog_real_bounds:
  assumes "0 < n"
  shows "(2::real) ^ (floorlog 2 n - 1) \<le> real n" "real n + 1 \<le> 2 ^ floorlog 2 n"
proof -
  from floorlog_bounds [OF assms, of 2]
  have b: "2 ^ (floorlog 2 n - 1) \<le> n" "Suc n \<le> 2 ^ floorlog 2 n"
    by simp_all
  from b(1) have "real (2 ^ (floorlog 2 n - 1)) \<le> real n" by (simp only: of_nat_le_iff)
  then show "(2::real) ^ (floorlog 2 n - 1) \<le> real n" by simp
  from b(2) have "real (Suc n) \<le> real (2 ^ floorlog 2 n)" by (simp only: of_nat_le_iff)
  then show "real n + 1 \<le> 2 ^ floorlog 2 n" by simp
qed

lemma floorlog_pos: "0 < n \<Longrightarrow> 0 < floorlog 2 n"
  by (simp add: floorlog_def)

lemma pow2_neg_succ:
  assumes "0 < k"
  shows "pow2 (- int k + 1) = 1 / 2 ^ (k - 1)"
proof (cases "k = 1")
  case True
  then show ?thesis by (simp add: pow2_def)
next
  case False
  with assms have "\<not> 0 \<le> - int k + 1" by arith
  moreover have "nat (- (- int k + 1)) = k - 1" by arith
  ultimately show ?thesis by (simp only: pow2_def if_False)
qed

lemma exponent_bounds:
  assumes "x \<noteq> 0"
  shows "pow2 (exponent x) \<le> \<bar>x\<bar> \<and> \<bar>x\<bar> < pow2 (exponent x + 1)"
proof (cases "1 \<le> \<bar>x\<bar>")
  case True
  let ?a = "\<bar>x\<bar>" and ?n = "nat \<lfloor>\<bar>x\<bar>\<rfloor>"
  from True have n: "0 < ?n" by simp
  note b = floorlog_real_bounds [OF n]
  have fl: "real ?n \<le> ?a" "?a < real ?n + 1" using True by simp_all
  have e: "exponent x = int (floorlog 2 ?n) - 1"
    using True by (simp add: exponent_def Let_def)
  from floorlog_pos [OF n] have p: "nat (int (floorlog 2 ?n) - 1) = floorlog 2 ?n - 1"
    "nat (int (floorlog 2 ?n)) = floorlog 2 ?n" "0 \<le> int (floorlog 2 ?n) - 1"
    by simp_all
  have "pow2 (exponent x) = 2 ^ (floorlog 2 ?n - 1)"
    unfolding e pow2_def using p by simp
  moreover have "pow2 (exponent x + 1) = 2 ^ floorlog 2 ?n"
    unfolding e pow2_def by simp
  ultimately show ?thesis using b fl by linarith
next
  case False
  let ?a = "\<bar>x\<bar>"
  from assms False have a: "0 < ?a" "?a < 1" by simp_all
  let ?y = "1 / ?a" and ?m = "nat (\<lceil>1 / \<bar>x\<bar>\<rceil> - 1)"
  from a have y: "1 < ?y" by simp
  then have c: "2 \<le> \<lceil>?y\<rceil>" by linarith
  then have m: "0 < ?m" by linarith
  note b = floorlog_real_bounds [OF m]
  have rm: "real ?m = of_int \<lceil>?y\<rceil> - 1"
  proof -
    from c have "0 \<le> \<lceil>?y\<rceil> - 1" by linarith
    then have "real (nat (\<lceil>?y\<rceil> - 1)) = of_int (\<lceil>?y\<rceil> - 1)" by (rule of_nat_nat)
    then show ?thesis by (simp only: of_int_diff of_int_1)
  qed
  have ce: "?y \<le> of_int \<lceil>?y\<rceil>" "of_int \<lceil>?y\<rceil> - 1 < ?y" by linarith+
  let ?k = "floorlog 2 ?m"
  have e: "exponent x = - int ?k"
    using False by (simp add: exponent_def Let_def)
  from floorlog_pos [OF m] have kpos: "0 < ?k" .
  have lo: "?y \<le> 2 ^ ?k" using b(2) rm ce by linarith
  have hi: "2 ^ (?k - 1) < ?y" using b(1) rm ce by linarith
  have p1: "pow2 (exponent x) = 1 / 2 ^ ?k"
    unfolding e pow2_def using kpos by simp
  have p2: "pow2 (exponent x + 1) = 1 / 2 ^ (?k - 1)"
    unfolding e using kpos by (rule pow2_neg_succ)
  have "1 / 2 ^ ?k \<le> ?a"
  proof -
    from lo a have "1 \<le> ?a * 2 ^ ?k" by (simp add: field_simps)
    then show ?thesis by (simp add: field_simps)
  qed
  moreover have "?a < 1 / 2 ^ (?k - 1)"
  proof -
    from hi a have "?a * 2 ^ (?k - 1) < 1" by (simp add: field_simps)
    then show ?thesis by (simp add: field_simps)
  qed
  ultimately show ?thesis unfolding p1 p2 ..
qed

lemma round_half_even_error: "\<bar>of_int (round_half_even y) - y\<bar> \<le> 1 / 2"
proof -
  have "of_int \<lfloor>y\<rfloor> \<le> y" "y < of_int \<lfloor>y\<rfloor> + 1" by linarith+
  then show ?thesis by (auto simp: round_half_even_def Let_def)
qed

lemma round_half_even_of_int: "round_half_even (of_int z) = z"
  by (simp add: round_half_even_def Let_def)

lemma to_double_error:
  assumes "x \<noteq> 0"
  shows "\<bar>to_double x - x\<bar> \<le> pow2 (exponent x - 52) / 2"
proof -
  define u where "u = pow2 (exponent x - 52)"
  have u: "0 < u" unfolding u_def by (rule pow2_pos)
  have "to_double x - x = (of_int (round_half_even (x / u)) - x / u) * u"
    using assms u by (simp add: to_double_def Let_def u_def [symmetric] field_simps)
  then have "\<bar>to_double x - x\<bar> = \<bar>of_int (round_half_even (x / u)) - x / u\<bar> * u"
    using u by (simp add: abs_mult)
  also have "\<dots> \<le> 1 / 2 * u"
    using round_half_even_error [of "x / u"] u by (intro mult_right_mono) simp_all
  finally show ?thesis by (simp add: u_def)
qed

lemma pow2_mono: "j \<le> k \<Longrightarrow> pow2 j \<le> pow2 k"
  by (simp add: pow2_powr)

lemma to_double_of_int:
  assumes "\<bar>m\<bar> < 2 ^ 53"
  shows "to_double (of_int m) = of_int m"
proof (cases "m = 0")
  case True
  then show ?thesis by (simp add: to_double_def)
next
  case False
  define x :: real where "x = of_int m"
  from False have x: "x \<noteq> 0" by (simp add: x_def)
  have "\<bar>x\<bar> = of_int \<bar>m\<bar>" by (simp add: x_def)
  also have "\<dots> < of_int (2 ^ 53)" using assms by (simp only: of_int_less_iff)
  finally have ax: "\<bar>x\<bar> < pow2 53" by (simp add: pow2_def)
  have e: "exponent x \<le> 52"
  proof (rule ccontr)
    assume "\<not> exponent x \<le> 52"
    then have "53 \<le> exponent x" by simp
    then have "pow2 53 \<le> pow2 (exponent x)" by (rule pow2_mono)
    with exponent_bounds [OF x] ax show False by linarith
  qed
  define n where "n = nat (52 - exponent x)"
  have ex: "exponent x - 52 = - int n" using e by (simp add: n_def)
  have u: "pow2 (exponent x - 52) = 1 / 2 ^ n"
    unfolding ex by (simp add: pow2_def)
  have q: "x / (1 / 2 ^ n) = of_int (m * 2 ^ n)" by (simp add: x_def)
  have "to_double x = of_int (round_half_even (of_int (m * 2 ^ n))) * (1 / 2 ^ n)"
    using x unfolding to_double_def Let_def u q by simp
  also have "\<dots> = of_int (m * 2 ^ n) * (1 / 2 ^ n)"
    by (simp only: round_half_even_of_int)
  also have "\<dots> = x" by (simp add: x_def)
  finally show ?thesis by (simp add: x_def)
qed

lemma round_half_even_ge:
  assumes "of_int l \<le> y"
  shows "l \<le> round_half_even y"
proof -
  from assms have "l \<le> \<lfloor>y\<rfloor>" by (simp add: le_floor_iff)
  moreover have "\<lfloor>y\<rfloor> \<le> round_half_even y"
    by (simp add: round_half_even_def Let_def)
  ultimately show ?thesis by (rule order_trans)
qed

lemma round_half_even_le:
  assumes "y \<le> of_int u"
  shows "round_half_even y \<le> u"
proof (cases "y = of_int u")
  case True
  then show ?thesis by (simp add: round_half_even_of_int)
next
  case False
  with assms have "y < of_int u" by simp
  then have "\<lfloor>y\<rfloor> < u" by (simp add: floor_less_iff)
  then have "\<lfloor>y\<rfloor> + 1 \<le> u" by simp
  moreover have "round_half_even y \<le> \<lfloor>y\<rfloor> + 1"
    by (simp add: round_half_even_def Let_def)
  ultimately show ?thesis by (rule order_trans [rotated])
qed

lemma to_double_significand:
  assumes "x \<noteq> 0"
  shows "\<exists>m. to_double x = of_int m * pow2 (exponent x - 52)
           \<and> 2 ^ 52 \<le> \<bar>m\<bar> \<and> \<bar>m\<bar> \<le> 2 ^ 53"
proof -
  define u where "u = pow2 (exponent x - 52)"
  define y where "y = x / u"
  define m where "m = round_half_even y"
  have u: "0 < u" unfolding u_def by (rule pow2_pos)
  have p52: "pow2 52 = 2 ^ 52" and p53: "pow2 53 = 2 ^ 53" by (simp_all add: pow2_def)
  have "exponent x = (exponent x - 52) + 52" by arith
  then have "pow2 (exponent x) = pow2 ((exponent x - 52) + 52)" by (rule arg_cong)
  also have "\<dots> = u * 2 ^ 52" unfolding pow2_add u_def p52 ..
  finally have lo: "pow2 (exponent x) = u * 2 ^ 52" .
  have "exponent x + 1 = (exponent x - 52) + 53" by arith
  then have "pow2 (exponent x + 1) = pow2 ((exponent x - 52) + 53)" by (rule arg_cong)
  also have "\<dots> = u * 2 ^ 53" unfolding pow2_add u_def p53 ..
  finally have hi: "pow2 (exponent x + 1) = u * 2 ^ 53" .
  have ay: "\<bar>x\<bar> = \<bar>y\<bar> * u" using u by (simp add: y_def)
  from exponent_bounds [OF assms] have "2 ^ 52 * u \<le> \<bar>y\<bar> * u" "\<bar>y\<bar> * u < 2 ^ 53 * u"
    unfolding lo hi ay by (simp_all only: mult.commute)
  with u have "2 ^ 52 \<le> \<bar>y\<bar>" "\<bar>y\<bar> < 2 ^ 53"
    by (simp_all only: mult_le_cancel_right_pos mult_less_cancel_right_pos)
  then have y: "2 ^ 52 \<le> \<bar>y\<bar>" "\<bar>y\<bar> \<le> 2 ^ 53" by simp_all
  have td: "to_double x = of_int m * u"
    using assms by (simp add: to_double_def Let_def u_def m_def y_def)
  have "2 ^ 52 \<le> \<bar>m\<bar> \<and> \<bar>m\<bar> \<le> 2 ^ 53"
  proof (cases "0 \<le> y")
    case True
    with y have b: "of_int (2 ^ 52) \<le> y" "y \<le> of_int (2 ^ 53)" by simp_all
    have "2 ^ 52 \<le> m" unfolding m_def using b(1) by (rule round_half_even_ge)
    moreover have "m \<le> 2 ^ 53" unfolding m_def using b(2) by (rule round_half_even_le)
    ultimately show ?thesis by simp
  next
    case False
    with y have b: "of_int (- (2 ^ 53)) \<le> y" "y \<le> of_int (- (2 ^ 52))" by simp_all
    have "- (2 ^ 53) \<le> m" unfolding m_def using b(1) by (rule round_half_even_ge)
    moreover have "m \<le> - (2 ^ 52)" unfolding m_def using b(2) by (rule round_half_even_le)
    ultimately show ?thesis by simp
  qed
  with td show ?thesis unfolding u_def by blast
qed

section \<open>The lookup\<close>

lemma series_get_default_Some: "map_of r c = Some v \<Longrightarrow> series_get_default r c d = v"
  by (simp add: series_get_default_def)

lemma catalog_row_has_column:
  assumes "catalog_row r" "(a, c) \<in> set nutrient_fields"
  shows "map_of r c \<noteq> None"
proof (cases "c = ''food''")
  case True
  with assms(1) show ?thesis
    by (auto simp: catalog_row_def series_get_default_def split: option.splits)
next
  case False
  with assms(2) have "c \<in> set nutrient_columns"
    by (auto simp: nutrient_columns_def nutrient_fields_def)
  with assms(1) have "is_num (series_get_default r c (Str []))"
    by (simp add: catalog_row_def list_all_iff)
  then show ?thesis
    by (auto simp: series_get_default_def split: option.splits)
qed

lemma make_food_nutrient_total:
  "\<forall>(a, c) \<in> set fs. map_of r c \<noteq> None \<Longrightarrow>
   make_food_nutrient r fs = Inr (map (\<lambda>(a, c). (a, series_get_default r c (Num 0))) fs)"
  by (induction fs) (auto simp: series_get_def series_get_default_def split: option.splits)

lemma make_food_nutrient_catalog_row:
  "catalog_row r \<Longrightarrow> make_food_nutrient r nutrient_fields = Inr (row_record r)"
  unfolding row_record_def
  by (rule make_food_nutrient_total) (auto dest: catalog_row_has_column)

lemma catalog_row_nonempty: "catalog_row r \<Longrightarrow> r \<noteq> []"
  by (auto simp: catalog_row_def series_get_default_def)

lemma find_filter: "find P xs = Some r \<Longrightarrow> \<exists>rest. filter P xs = r # rest"
  by (induction xs) (auto split: if_splits)

lemma find_None_filter: "find P xs = None \<Longrightarrow> filter P xs = []"
  by (induction xs) (auto split: if_splits)

lemma find_in_set: "find P xs = Some r \<Longrightarrow> r \<in> set xs"
  by (induction xs) (auto split: if_splits)

lemma lookup_found:
  assumes "catalog db" "find (name_matches (lower food)) (rows db) = Some r"
  shows "get_food_nutrition db food = Inr (Some (row_record r))"
proof -
  from assms(2) obtain rest where f: "filter (name_matches (lower food)) (rows db) = r # rest"
    by (blast dest: find_filter)
  from assms have cr: "catalog_row r"
    by (auto simp: catalog_def list_all_iff dest: find_in_set)
  from assms(1) have c: "''food'' \<in> set (columns db)" by (simp add: catalog_def)
  show ?thesis
    unfolding get_food_nutrition_def using c f cr
    by (simp add: iloc0_def make_food_nutrient_catalog_row catalog_row_nonempty del: name_matches.simps)
qed

lemma lookup_absent:
  assumes "''food'' \<in> set (columns db)" "\<not> present db food"
  shows "get_food_nutrition db food = Inl IndexError"
  using assms unfolding get_food_nutrition_def present_def iloc0_def
  by (simp add: list_ex_iff filter_False del: name_matches.simps)

lemma lookup_never_None: "get_food_nutrition db name \<noteq> Inr None"
  unfolding get_food_nutrition_def iloc0_def
  by (auto split: list.splits sum.splits option.splits cell.splits simp: filter_eq_Cons_iff)

lemma present_find: "present db food \<Longrightarrow> \<exists>r. find (name_matches (lower food)) (rows db) = Some r"
  unfolding present_def list_ex_iff
  by (metis find_None_iff not_Some_eq)

lemma present_lookup:
  assumes "catalog db" "present db food"
  shows "\<exists>r \<in> set (rows db). get_food_nutrition db food = Inr (Some (row_record r))"
  using assms by (meson present_find lookup_found find_in_set)

section \<open>The record of a row\<close>

lemma map_of_row_record:
  "map_of (row_record r) a = map_option (\<lambda>c. series_get_default r c (Num 0)) (map_of nutrient_fields a)"
  by (simp add: row_record_def map_of_map)

lemma nutrient_fields_column:
  "map_of nutrient_fields a = Some c \<Longrightarrow> a \<noteq> ''food_name'' \<Longrightarrow> c \<in> set nutrient_columns"
  by (simp add: nutrient_fields_def nutrient_columns_def split: if_splits)

lemma catalog_row_numeric:
  assumes "catalog_row r" "c \<in> set nutrient_columns"
  shows "\<exists>x. map_of r c = Some (Num x)"
proof -
  from assms have "is_num (series_get_default r c (Str []))"
    by (simp add: catalog_row_def list_all_iff)
  then show ?thesis
    by (cases "map_of r c") (auto simp: series_get_default_def elim: is_num.elims)
qed

lemma row_record_numeric:
  assumes "catalog_row r" "map_of nutrient_fields a = Some c" "a \<noteq> ''food_name''"
  shows "\<exists>x. map_of (row_record r) a = Some (Num x)"
proof -
  from assms(2,3) have "c \<in> set nutrient_columns" by (rule nutrient_fields_column)
  with assms(1) obtain x where "map_of r c = Some (Num x)" by (blast dest: catalog_row_numeric)
  then show ?thesis using assms(2) by (simp add: map_of_row_record series_get_default_def)
qed

lemma tracked_are_fields:
  "k \<in> set tracked_nutrients \<Longrightarrow> k \<noteq> ''food_name'' \<and> (\<exists>c. map_of nutrient_fields k = Some c)"
  by (auto simp: tracked_nutrients_def nutrient_fields_def)

lemma row_record_tracked:
  "catalog_row r \<Longrightarrow> k \<in> set tracked_nutrients \<Longrightarrow> \<exists>x. map_of (row_record r) k = Some (Num x)"
  using row_record_numeric tracked_are_fields by blast

section \<open>The sample table\<close>

lemma sample_row_food: "map_of (sample_row name a b c d e) ''food'' = Some (Str name)"
  by (simp add: sample_row_def)

lemma sample_row_column:
  "k \<in> set nutrient_columns \<Longrightarrow> \<exists>x. map_of (sample_row name a b c d e) k = Some (Num x)"
  by (auto simp: sample_row_def map_of_map_restrict nutrient_columns_def nutrient_fields_def)

lemma catalog_row_sample: "catalog_row (sample_row name a b c d e)"
proof -
  have "is_num (series_get_default (sample_row name a b c d e) k (Str []))"
    if "k \<in> set nutrient_columns" for k
    using sample_row_column [OF that, of name a b c d e]
    by (auto simp: series_get_default_def)
  then show ?thesis
    by (simp add: catalog_row_def list_all_iff series_get_default_def sample_row_food)
qed

lemma catalog_sample_db: "catalog sample_db"
  by (simp add: catalog_def sample_db_def catalog_row_sample)

lemma lower_Apple: "lower ''Apple'' = ''apple''" "lower ''Banana'' = ''banana''" "lower ''apple'' = ''apple''"
  by (simp_all add: lower_def lower_char_def)

lemma present_sample: "present sample_db ''Apple''" "present sample_db ''Banana''"
  by (simp_all add: present_def sample_db_def sample_row_food lower_def lower_char_def)

lemma lookup_Apple: "get_food_nutrition sample_db ''Apple'' = Inr (Some (row_record (sample_row ''Apple'' 52 0.3 14 0.2 2.4)))"
  by (rule lookup_found [OF catalog_sample_db]) (simp add: sample_db_def sample_row_food lower_def lower_char_def)

lemma lookup_Banana: "get_food_nutrition sample_db ''Banana'' = Inr (Some (row_record (sample_row ''Banana'' 89 1.1 23 0.3 2.6)))"
  by (rule lookup_found [OF catalog_sample_db]) (simp add: sample_db_def sample_row_food lower_def lower_char_def)

lemma sample_calories: "float_attr (row_record (sample_row name a b c d e)) ''calories'' = a"
  by (simp add: float_attr_def getattr_def map_of_row_record nutrient_fields_def series_get_default_def sample_row_def nutrient_columns_def)

lemma nutrient_of_sample:
  "nutrient_of sample_db ''Apple'' ''calories'' = 52"
  "nutrient_of sample_db ''Banana'' ''calories'' = 89"
  by (simp_all add: nutrient_of_def lookup_Apple lookup_Banana sample_calories)

lemma absent_pear: "\<not> present sample_db ''pear''"
  by (simp add: present_def sample_db_def sample_row_food lower_def lower_char_def)

lemma sample_db_has_food_column: "''food'' \<in> set (columns sample_db)"
  by (simp add: sample_db_def)

section \<open>Aggregation\<close>

lemma add_scaled_numeric:
  assumes "distinct ks" "\<forall>k\<in>set ks. \<exists>x. map_of f k = Some (Num x)"
  shows "add_scaled f s ks t =
           Inr (\<lambda>k. if k \<in> set ks then Some (fadd (dict_get t k) (fmul (float_attr f k) s))
                    else t k)"
  using assms
proof (induction ks arbitrary: t)
  case Nil
  then show ?case by simp
next
  case (Cons k ks)
  then obtain x where x: "map_of f k = Some (Num x)" by auto
  have fa: "float_attr f k = x" using x by (simp add: float_attr_def getattr_def)
  let ?t = "t(k \<mapsto> fadd (dict_get t k) (fmul x s))"
  have ih: "add_scaled f s ks ?t =
           Inr (\<lambda>j. if j \<in> set ks then Some (fadd (dict_get ?t j) (fmul (float_attr f j) s))
                    else ?t j)"
    using Cons by simp
  have "add_scaled f s (k # ks) t = add_scaled f s ks ?t"
    using x by (simp add: attribute_def)
  also have "\<dots> = Inr (\<lambda>j. if j \<in> set (k # ks)
                               then Some (fadd (dict_get t j) (fmul (float_attr f j) s)) else t j)"
    unfolding ih using Cons.prems(1) fa by (auto simp: dict_get_def fun_eq_iff)
  finally show ?case .
qed

lemma distinct_tracked: "distinct tracked_nutrients"
  by (simp add: tracked_nutrients_def)

lemma initial_totals_apply:
  "initial_totals k = (if k \<in> set tracked_nutrients then Some 0 else None)"
  unfolding initial_totals_def
  by (simp add: map_of_map_restrict restrict_map_def)

lemma nutrient_of_found:
  "get_food_nutrition db food = Inr (Some f) \<Longrightarrow> nutrient_of db food k = float_attr f k"
  by (simp add: nutrient_of_def)

lemma analyze_loop_fold:
  assumes "catalog db" "\<forall>(food, q) \<in> set es. present db food"
      and "\<forall>k \<in> set tracked_nutrients. t k \<noteq> None"
  shows "analyze_loop db es t =
           Inr (\<lambda>k. if k \<in> set tracked_nutrients
                    then Some (foldl (\<lambda>acc (food, q).
                                  fadd acc (fmul (nutrient_of db food k) (fdiv q 100)))
                                (dict_get t k) es)
                    else t k)"
  using assms(2,3)
proof (induction es arbitrary: t)
  case Nil
  then show ?case by (auto simp: fun_eq_iff dict_get_def split: option.splits)
next
  case (Cons e es)
  obtain food q where e: "e = (food, q)" by (cases e)
  with Cons.prems have "present db food" by simp
  with assms(1) obtain r where r: "r \<in> set (rows db)"
      and l: "get_food_nutrition db food = Inr (Some (row_record r))"
    by (blast dest: present_lookup)
  from assms(1) r have cr: "catalog_row r" by (simp add: catalog_def list_all_iff)
  let ?t = "\<lambda>k. if k \<in> set tracked_nutrients
                 then Some (fadd (dict_get t k) (fmul (float_attr (row_record r) k) (fdiv q 100)))
                 else t k"
  have step: "add_scaled (row_record r) (fdiv q 100) tracked_nutrients t = Inr ?t"
    by (rule add_scaled_numeric) (use cr distinct_tracked row_record_tracked in auto)
  have ih: "analyze_loop db es ?t =
           Inr (\<lambda>k. if k \<in> set tracked_nutrients
                    then Some (foldl (\<lambda>acc (food, q).
                                  fadd acc (fmul (nutrient_of db food k) (fdiv q 100)))
                                (dict_get ?t k) es)
                    else ?t k)"
    using Cons by simp
  show ?case
    unfolding e using l step
    by (simp add: ih nutrient_of_found fun_eq_iff dict_get_def)
qed

lemma analyze_loop_absent:
  assumes "catalog db" "(food, q) \<in> set es" "\<not> present db food"
      and "\<forall>k \<in> set tracked_nutrients. t k \<noteq> None"
  shows "analyze_loop db es t = Inl IndexError"
  using assms(2,4)
proof (induction es arbitrary: t)
  case Nil
  then show ?case by simp
next
  case (Cons e es)
  obtain food' q' where e: "e = (food', q')" by (cases e)
  from assms(1) have col: "''food'' \<in> set (columns db)" by (simp add: catalog_def)
  show ?case
  proof (cases "present db food'")
    case False
    with col have "get_food_nutrition db food' = Inl IndexError" by (rule lookup_absent)
    then show ?thesis by (simp add: e)
  next
    case True
    with assms(3) have ne: "(food, q) \<noteq> (food', q')" by auto
    from True assms(1) obtain r where r: "r \<in> set (rows db)"
        and l: "get_food_nutrition db food' = Inr (Some (row_record r))"
      by (blast dest: present_lookup)
    from assms(1) r have cr: "catalog_row r" by (simp add: catalog_def list_all_iff)
    let ?t = "\<lambda>k. if k \<in> set tracked_nutrients
                   then Some (fadd (dict_get t k) (fmul (float_attr (row_record r) k) (fdiv q' 100)))
                   else t k"
    have step: "add_scaled (row_record r) (fdiv q' 100) tracked_nutrients t = Inr ?t"
      by (rule add_scaled_numeric) (use cr distinct_tracked row_record_tracked in auto)
    have "analyze_loop db es ?t = Inl IndexError"
      using Cons ne e by auto
    then show ?thesis using l step by (simp add: e)
  qed
qed

lemma analyze_accumulates:
  assumes "catalog db" "\<forall>(food, grams) \<in> set (zip foods quantities). present db food"
  shows "analyze_daily_intake db foods quantities =
           Inr (\<lambda>k. if k \<in> set tracked_nutrients
                    then Some (accumulate db k (zip foods quantities)) else None)"
  unfolding analyze_daily_intake_def
  using analyze_loop_fold [OF assms, of initial_totals]
  by (simp add: initial_totals_apply dict_get_def accumulate_def fun_eq_iff)

text \<open>
  C1. The lookup of a name that matches no row: the claim has it return the absent result
  (\<open>None\<close>). On the sample table the lookup of \<open>pear\<close> raises IndexError, from \<^verbatim>\<open>.iloc[0]\<close> on
  the empty selection; the \<^verbatim>\<open>if row.empty: return None\<close> that follows is never reached
  (lemmas \<open>lookup_absent\<close> and \<open>lookup_never_None\<close> hold on every table).
\<close>

theorem lookup_unknown_name_raises:
  "get_food_nutrition sample_db ''pear'' = Inl IndexError"
  by (rule lookup_absent [OF sample_db_has_food_column absent_pear])

text \<open>
  C2. Aggregation of a list with an unknown food: the claim has the unknown entry skipped and
  the others accumulated. On the sample table the aggregation of 200 g of Apple and 100 g of
  the unknown \<open>pear\<close> raises IndexError as a whole (lemma \<open>analyze_loop_absent\<close>: so does
  every list with an unknown food, on every table of the loader's shape).
\<close>

theorem aggregate_unknown_food_raises:
  "analyze_daily_intake sample_db [''Apple'', ''pear''] [200, 100] = Inl IndexError"
  unfolding analyze_daily_intake_def
  by (rule analyze_loop_absent [OF catalog_sample_db _ absent_pear])
     (auto simp: initial_totals_apply)

text \<open>
  C3, as amended. On a table of the loader's shape, when every food of the entry list is
  present, the aggregation returns totals whose value for each of the eight tracked nutrients
  is the sum accumulated in the order of the entries, from 0, of the looked-up value times
  grams / 100, the quotient, the product and each sum rounded to a double.
\<close>

theorem aggregate_accumulates_in_order:
  assumes "catalog db"
      and "\<forall>(food, grams) \<in> set (zip foods quantities). present db food"
  shows "\<exists>totals. analyze_daily_intake db foods quantities = Inr totals \<and>
           (\<forall>k \<in> set tracked_nutrients.
              totals k = Some (accumulate db k (zip foods quantities)))"
  using analyze_accumulates [OF assms] by simp

lemma sample_entries_present:
  "\<forall>(food, grams) \<in> set (zip fs qs). food = ''Apple'' \<or> food = ''Banana'' \<Longrightarrow>
     \<forall>(food, grams) \<in> set (zip fs qs). present sample_db food"
  using present_sample by auto

lemma calories_tracked: "''calories'' \<in> set tracked_nutrients"
  by (simp add: tracked_nutrients_def)

lemma sum_200_100:
  "fadd (fadd 0 (fmul 52 (fdiv 200 100))) (fmul 89 (fdiv 100 100)) = 193"
  by code_simp

theorem aggregate_accumulates_in_order_witness:
  "\<exists>totals. analyze_daily_intake sample_db [''Apple'', ''Banana''] [200, 100] = Inr totals \<and>
      totals ''calories'' = Some 193"
proof -
  have h: "\<forall>(food, grams) \<in> set (zip [''Apple'', ''Banana''] [200, 100 :: real]). present sample_db food"
    by (simp add: present_sample)
  from aggregate_accumulates_in_order [OF catalog_sample_db h]
  obtain totals where
    t: "analyze_daily_intake sample_db [''Apple'', ''Banana''] [200, 100] = Inr totals"
    and c: "\<forall>k \<in> set tracked_nutrients.
              totals k = Some (accumulate sample_db k (zip [''Apple'', ''Banana''] [200, 100]))"
    by blast
  from c calories_tracked have "totals ''calories'' =
      Some (accumulate sample_db ''calories'' (zip [''Apple'', ''Banana''] [200, 100]))"
    by blast
  then have "totals ''calories'' = Some 193"
    by (simp add: accumulate_def nutrient_of_sample sum_200_100)
  with t show ?thesis by blast
qed

text \<open>
  C3, as stated, fails on the sample table: 10 g of Apple, 10 g of Banana and 100 g of Apple
  give the calories 66.1 (the double nearest to it) in this order and 66.10000000000001 with
  the two Apple entries first. The two entry lists are permutations of each other.
\<close>

lemma sum_apple_banana_apple:
  "fadd (fadd (fadd 0 (fmul 52 (fdiv 10 100))) (fmul 89 (fdiv 10 100))) (fmul 52 (fdiv 100 100))
     = 2325686995071795 / 35184372088832"
  by code_simp

lemma sum_apple_apple_banana:
  "fadd (fadd (fadd 0 (fmul 52 (fdiv 10 100))) (fmul 52 (fdiv 100 100))) (fmul 89 (fdiv 10 100))
     = 4651373990143591 / 70368744177664"
  by code_simp

theorem aggregate_permutation_counterexample:
  "total_of (analyze_daily_intake sample_db [''Apple'', ''Banana'', ''Apple''] [10, 10, 100]) ''calories''
     = Some (2325686995071795 / 35184372088832) \<and>
   total_of (analyze_daily_intake sample_db [''Apple'', ''Apple'', ''Banana''] [10, 100, 10]) ''calories''
     = Some (4651373990143591 / 70368744177664) \<and>
   mset (zip [''Apple'', ''Apple'', ''Banana''] [10, 100, 10 :: real]) =
     mset (zip [''Apple'', ''Banana'', ''Apple''] [10, 10, 100 :: real]) \<and>
   (2325686995071795 / 35184372088832 :: real) \<noteq> 4651373990143591 / 70368744177664"
proof -
  have a: "\<forall>(food, grams) \<in> set (zip [''Apple'', ''Banana'', ''Apple''] [10, 10, 100 :: real]).
             present sample_db food"
    by (simp add: present_sample)
  have b: "\<forall>(food, grams) \<in> set (zip [''Apple'', ''Apple'', ''Banana''] [10, 100, 10 :: real]).
             present sample_db food"
    by (simp add: present_sample)
  have 1: "total_of (analyze_daily_intake sample_db [''Apple'', ''Banana'', ''Apple''] [10, 10, 100])
             ''calories'' = Some (2325686995071795 / 35184372088832)"
    unfolding analyze_accumulates [OF catalog_sample_db a]
    by (simp add: total_of_def calories_tracked accumulate_def nutrient_of_sample
          sum_apple_banana_apple)
  have 2: "total_of (analyze_daily_intake sample_db [''Apple'', ''Apple'', ''Banana''] [10, 100, 10])
             ''calories'' = Some (4651373990143591 / 70368744177664)"
    unfolding analyze_accumulates [OF catalog_sample_db b]
    by (simp add: total_of_def calories_tracked accumulate_def nutrient_of_sample
          sum_apple_apple_banana)
  have 3: "mset (zip [''Apple'', ''Apple'', ''Banana''] [10, 100, 10 :: real]) =
     mset (zip [''Apple'', ''Banana'', ''Apple''] [10, 10, 100 :: real])"
    by (simp add: add_mset_commute)
  have 4: "(2325686995071795 / 35184372088832 :: real) \<noteq> 4651373990143591 / 70368744177664"
    by simp
  from 1 2 3 4 show ?thesis by (intro conjI)
qed

section \<open>Gap analysis\<close>

lemma fmul_zero: "fmul 0 c = 0"
  by (simp add: fmul_def to_double_def)

lemma gaps_loop_result:
  assumes "distinct (map fst ts)"
      and "\<forall>(n, t) \<in> set ts. t = 0 \<longrightarrow> 0 \<le> dict_get intake n"
  shows "gaps_loop intake ts g =
           Inr (\<lambda>n. case map_of ts n of
                       None \<Rightarrow> g n
                     | Some t \<Rightarrow> if dict_get intake n < fmul t (to_double 0.8)
                                then Some (gap_of intake n t) else g n)"
  using assms
proof (induction ts arbitrary: g)
  case Nil
  then show ?case by simp
next
  case (Cons p ts)
  obtain n t where p: "p = (n, t)" by (cases p)
  from Cons.prems p have d: "distinct (map fst ts)" and nin: "map_of ts n = None"
    by (auto simp: map_of_eq_None_iff)
  from Cons.prems p have z: "\<forall>(n, t) \<in> set ts. t = 0 \<longrightarrow> 0 \<le> dict_get intake n" by simp
  note ih = Cons.IH [OF d z]
  show ?case
  proof (cases "dict_get intake n < fmul t (to_double 0.8)")
    case True
    with Cons.prems(2) p have "t \<noteq> 0" by (auto simp: fmul_zero)
    with True show ?thesis
      unfolding p by (auto simp: ih Let_def fun_eq_iff nin gap_of_def split: option.splits)
  next
    case False
    then show ?thesis
      unfolding p by (auto simp: ih Let_def fun_eq_iff nin split: option.splits)
  qed
qed

lemma gaps_loop_skips_zero_target:
  assumes "0 \<le> dict_get intake n"
  shows "gaps_loop intake ts g = gaps_loop intake (filter (\<lambda>(m, t). \<not> (m = n \<and> t = 0)) ts) g"
  using assms
proof (induction ts arbitrary: g)
  case Nil
  then show ?case by simp
next
  case (Cons p ts)
  obtain m t where p: "p = (m, t)" by (cases p)
  show ?case
  proof (cases "m = n \<and> t = 0")
    case True
    with Cons show ?thesis unfolding p by (simp add: Let_def fmul_zero)
  next
    case False
    with Cons show ?thesis unfolding p by (auto simp: Let_def)
  qed
qed

lemma gaps_loop_untouched:
  "gaps_loop intake ts g = Inr g' \<Longrightarrow> n \<notin> fst ` set ts \<Longrightarrow> g' n = g n"
proof (induction ts arbitrary: g)
  case Nil
  then show ?case by simp
next
  case (Cons p ts)
  obtain m t where p: "p = (m, t)" by (cases p)
  with Cons.prems have "m \<noteq> n" "n \<notin> fst ` set ts" by auto
  with Cons.prems(1) Cons.IH show ?case
    unfolding p by (auto simp: Let_def split: if_splits)
qed

text \<open>
  C4, as amended. For targets with distinct keys (a dict) that are all positive, the gap
  analysis returns, and it holds an entry for a nutrient exactly when the nutrient is a key of
  the targets and its current value (0 when absent from the intake) is strictly below the
  threshold as the code computes it: the target times the double nearest to 0.8, rounded to a
  double. The entry holds current, target, the deficit target - current rounded to a double,
  and the percentage: current / target rounded to a double, times 100, rounded to a double.
\<close>

theorem gaps_flagged_iff_below_rounded_threshold:
  assumes "distinct (map fst targets)"
      and "\<forall>(n, t) \<in> set targets. 0 < t"
  shows "\<exists>gaps. identify_nutritional_gaps intake targets = Inr gaps \<and>
           (\<forall>n. (gaps n \<noteq> None) =
                 (\<exists>t. (n, t) \<in> set targets \<and> dict_get intake n < fmul t (to_double 0.8))) \<and>
           (\<forall>n t. (n, t) \<in> set targets \<and> dict_get intake n < fmul t (to_double 0.8) \<longrightarrow>
                 gaps n = Some \<lparr>current = dict_get intake n, target = t,
                                 deficit = fsub t (dict_get intake n),
                                 percentage = fmul (fdiv (dict_get intake n) t) 100\<rparr>)"
proof -
  from assms(2) have z: "\<forall>(n, t) \<in> set targets. t = 0 \<longrightarrow> 0 \<le> dict_get intake n" by auto
  let ?g = "\<lambda>n. case map_of targets n of
                       None \<Rightarrow> None
                     | Some t \<Rightarrow> if dict_get intake n < fmul t (to_double 0.8)
                                then Some (gap_of intake n t) else None"
  have r: "identify_nutritional_gaps intake targets = Inr ?g"
    unfolding identify_nutritional_gaps_def gaps_loop_result [OF assms(1) z] by simp
  have m: "map_of targets n = Some t \<longleftrightarrow> (n, t) \<in> set targets" for n t
    using assms(1) by simp
  have a: "(?g n \<noteq> None) =
             (\<exists>t. (n, t) \<in> set targets \<and> dict_get intake n < fmul t (to_double 0.8))" for n
    by (cases "map_of targets n") (auto simp: m [symmetric])
  have b: "?g n = Some \<lparr>current = dict_get intake n, target = t,
                                 deficit = fsub t (dict_get intake n),
                                 percentage = fmul (fdiv (dict_get intake n) t) 100\<rparr>"
    if "(n, t) \<in> set targets \<and> dict_get intake n < fmul t (to_double 0.8)" for n t
    using that by (auto simp: m [symmetric] gap_of_def)
  from r a b show ?thesis by blast
qed

lemma scenario_arithmetic:
  "fmul 2000 (to_double (4 / 5)) = 1600" "fmul 75 (to_double (4 / 5)) = 60"
  "fsub 2000 1000 = 1000" "fmul (fdiv 1000 2000) 100 = 50"
  by code_simp+

theorem gaps_flagged_iff_below_rounded_threshold_witness:
  "\<exists>gaps. identify_nutritional_gaps sample_intake sample_targets = Inr gaps \<and>
     gaps ''calories'' = Some \<lparr>current = 1000, target = 2000, deficit = 1000, percentage = 50\<rparr> \<and>
     gaps ''protein'' = None"
proof -
  have d: "distinct (map fst sample_targets)" by (simp add: sample_targets_def)
  have p: "\<forall>(n, t) \<in> set sample_targets. 0 < t" by (simp add: sample_targets_def)
  from gaps_flagged_iff_below_rounded_threshold [OF d p, of sample_intake]
  obtain gaps where r: "identify_nutritional_gaps sample_intake sample_targets = Inr gaps"
    and a: "\<forall>n. (gaps n \<noteq> None) =
                 (\<exists>t. (n, t) \<in> set sample_targets \<and>
                      dict_get sample_intake n < fmul t (to_double 0.8))"
    and b: "\<forall>n t. (n, t) \<in> set sample_targets \<and>
                   dict_get sample_intake n < fmul t (to_double 0.8) \<longrightarrow>
                 gaps n = Some \<lparr>current = dict_get sample_intake n, target = t,
                                 deficit = fsub t (dict_get sample_intake n),
                                 percentage = fmul (fdiv (dict_get sample_intake n) t) 100\<rparr>"
    by blast
  have "gaps ''calories'' = Some \<lparr>current = 1000, target = 2000, deficit = 1000, percentage = 50\<rparr>"
    using b [rule_format, of "''calories''" 2000]
    by (simp add: sample_targets_def sample_intake_def dict_get_def scenario_arithmetic)
  moreover have "gaps ''protein'' = None"
    using a [rule_format, of "''protein''"]
    by (simp add: sample_targets_def sample_intake_def dict_get_def scenario_arithmetic)
  ultimately show ?thesis using r by blast
qed

text \<open>
  C4, as stated, fails at the threshold: with the target 43 and the current value the double
  written \<^verbatim>\<open>34.4\<close>, which is below 0.8 times 43, the analysis returns without an entry for
  the nutrient, since the product of 43 and the double nearest to 0.8 rounds to that same
  double.
\<close>

lemma boundary_arithmetic:
  "fmul 43 (to_double (4 / 5)) = to_double (172 / 5)" "to_double (172 / 5) < 172 / 5"
  by code_simp+

theorem gaps_threshold_counterexample:
  "\<not> isl (identify_nutritional_gaps boundary_intake boundary_targets) \<and>
   gap_at (identify_nutritional_gaps boundary_intake boundary_targets) ''iron'' = None \<and>
   (''iron'', 43) \<in> set boundary_targets \<and>
   dict_get boundary_intake ''iron'' < 0.8 * 43"
proof -
  have c: "dict_get boundary_intake ''iron'' = to_double (172 / 5)"
    by (simp add: boundary_intake_def dict_get_def)
  have r: "identify_nutritional_gaps boundary_intake boundary_targets = Inr Map.empty"
    by (simp add: identify_nutritional_gaps_def boundary_targets_def c boundary_arithmetic)
  have 1: "\<not> isl (identify_nutritional_gaps boundary_intake boundary_targets)"
    by (simp add: r)
  have 2: "gap_at (identify_nutritional_gaps boundary_intake boundary_targets) ''iron'' = None"
    by (simp add: r gap_at_def)
  have 3: "(''iron'', 43) \<in> set boundary_targets"
    by (simp add: boundary_targets_def)
  have "(0.8 :: real) * 43 = 172 / 5" by simp
  then have 4: "dict_get boundary_intake ''iron'' < 0.8 * 43"
    by (simp only: c boundary_arithmetic)
  from 1 2 3 4 show ?thesis by (intro conjI)
qed

text \<open>
  C10. A nutrient whose target is exactly 0 and whose current value is not negative: the
  threshold test fails, so its round of the loop does nothing. The analysis is the same as on
  the targets without that nutrient (neither an error nor an entry comes from it), a result
  never flags it, and when every zero target has a non-negative current value the analysis
  returns: no division by zero occurs.
\<close>

theorem zero_target_is_skipped:
  assumes "distinct (map fst targets)"
      and "(n, 0) \<in> set targets"
      and "0 \<le> dict_get intake n"
  shows "identify_nutritional_gaps intake targets =
           identify_nutritional_gaps intake (filter (\<lambda>(m, t). m \<noteq> n) targets) \<and>
         (\<forall>gaps. identify_nutritional_gaps intake targets = Inr gaps \<longrightarrow> gaps n = None) \<and>
         ((\<forall>(m, t) \<in> set targets. t = 0 \<longrightarrow> 0 \<le> dict_get intake m) \<longrightarrow>
            (\<exists>gaps. identify_nutritional_gaps intake targets = Inr gaps))"
proof -
  have only: "t = 0" if "(n, t) \<in> set targets" for t
    using assms(1,2) that by (metis map_of_is_SomeI option.inject)
  have f: "filter (\<lambda>(m, t). \<not> (m = n \<and> t = 0)) targets = filter (\<lambda>(m, t). m \<noteq> n) targets"
    by (rule filter_cong) (auto dest: only)
  have a: "identify_nutritional_gaps intake targets =
           identify_nutritional_gaps intake (filter (\<lambda>(m, t). m \<noteq> n) targets)"
    unfolding identify_nutritional_gaps_def
    using gaps_loop_skips_zero_target [OF assms(3), of targets Map.empty] by (simp only: f)
  have b: "gaps n = None" if "identify_nutritional_gaps intake targets = Inr gaps" for gaps
  proof -
    from that a have "gaps_loop intake (filter (\<lambda>(m, t). m \<noteq> n) targets) Map.empty = Inr gaps"
      by (simp add: identify_nutritional_gaps_def)
    moreover have "n \<notin> fst ` set (filter (\<lambda>(m, t). m \<noteq> n) targets)" by auto
    ultimately show ?thesis by (auto dest: gaps_loop_untouched)
  qed
  have c: "\<exists>gaps. identify_nutritional_gaps intake targets = Inr gaps"
    if "\<forall>(m, t) \<in> set targets. t = 0 \<longrightarrow> 0 \<le> dict_get intake m"
    unfolding identify_nutritional_gaps_def gaps_loop_result [OF assms(1) that] by blast
  from a b c show ?thesis by blast
qed

theorem zero_target_is_skipped_witness:
  "identify_nutritional_gaps sample_intake [(''fiber'', 0), (''calories'', 2000)] =
     identify_nutritional_gaps sample_intake [(''calories'', 2000)] \<and>
   (\<exists>gaps. identify_nutritional_gaps sample_intake [(''fiber'', 0), (''calories'', 2000)] = Inr gaps \<and>
      gaps ''fiber'' = None)"
proof -
  have d: "distinct (map fst [(''fiber'', 0 :: real), (''calories'', 2000)])" by simp
  have m: "(''fiber'', 0) \<in> set [(''fiber'', 0 :: real), (''calories'', 2000)]" by simp
  have c: "0 \<le> dict_get sample_intake ''fiber''" by (simp add: sample_intake_def dict_get_def)
  have z: "\<forall>(m, t) \<in> set [(''fiber'', 0 :: real), (''calories'', 2000)].
             t = 0 \<longrightarrow> 0 \<le> dict_get sample_intake m"
    by (simp add: sample_intake_def dict_get_def)
  note t = zero_target_is_skipped [OF d m c]
  from t z obtain gaps where
    g: "identify_nutritional_gaps sample_intake [(''fiber'', 0), (''calories'', 2000)] = Inr gaps"
    by blast
  with t have "gaps ''fiber'' = None" by blast
  with g t show ?thesis by auto
qed

section \<open>Comparison of two foods\<close>

lemma getattr_row_record_numeric:
  assumes "catalog_row r" "n \<noteq> ''food_name''"
  shows "\<exists>x. getattr (row_record r) n = Num x"
proof (cases "map_of nutrient_fields n")
  case None
  then show ?thesis by (simp add: getattr_def map_of_row_record)
next
  case (Some c)
  with assms obtain x where "map_of (row_record r) n = Some (Num x)"
    by (blast dest: row_record_numeric)
  then show ?thesis by (simp add: getattr_def)
qed

lemma compare_nutrient_numeric:
  assumes "getattr f1 n = Num v1" "getattr f2 n = Num v2"
  shows "\<exists>e. compare_nutrient a b f1 f2 n = Inr e \<and>
           food1_value e = v1 \<and> food2_value e = v2 \<and> difference e = v1 - v2 \<and>
           percentage_diff e =
             (if v1 = 0 \<and> v2 = 0 then 0 else if v2 \<noteq> 0 then ((v1 - v2) / v2) * 100 else 100) \<and>
           better_food e = (if percentage_diff e > 0 then a else b)"
  using assms by (simp add: compare_nutrient_def Let_def)

lemma compare_loop_result:
  assumes "\<forall>n \<in> set ns. \<exists>e. compare_nutrient a b f1 f2 n = Inr e"
  shows "\<exists>c. compare_loop a b f1 f2 ns acc = Inr c \<and>
           (\<forall>n \<in> set ns. \<exists>e. compare_nutrient a b f1 f2 n = Inr e \<and> c n = Some e) \<and>
           (\<forall>n. n \<notin> set ns \<longrightarrow> c n = acc n)"
  using assms
proof (induction ns arbitrary: acc)
  case Nil
  then show ?case by simp
next
  case (Cons n ns)
  then obtain e where e: "compare_nutrient a b f1 f2 n = Inr e" by auto
  from Cons.prems have "\<forall>n \<in> set ns. \<exists>e. compare_nutrient a b f1 f2 n = Inr e" by simp
  from Cons.IH [OF this, of "acc(n \<mapsto> e)"]
  obtain c where c: "compare_loop a b f1 f2 ns (acc(n \<mapsto> e)) = Inr c"
    and i: "\<forall>m \<in> set ns. \<exists>e. compare_nutrient a b f1 f2 m = Inr e \<and> c m = Some e"
    and o: "\<forall>m. m \<notin> set ns \<longrightarrow> c m = (acc(n \<mapsto> e)) m"
    by blast
  have "compare_loop a b f1 f2 (n # ns) acc = Inr c" using e c by simp
  moreover have "\<exists>e'. compare_nutrient a b f1 f2 n = Inr e' \<and> c n = Some e'"
  proof (cases "n \<in> set ns")
    case True
    with i show ?thesis by blast
  next
    case False
    with o e show ?thesis by simp
  qed
  moreover have "\<forall>m. m \<notin> set (n # ns) \<longrightarrow> c m = acc m" using o by simp
  ultimately show ?case using i by auto
qed

lemma compare_foods_catalog:
  assumes "catalog db" "present db a" "present db b" "''food_name'' \<notin> set (compared nutrients)"
  shows "\<exists>r. compare_foods db a b nutrients = Inr r \<and> food1 r = a \<and> food2 r = b \<and>
           (\<forall>n \<in> set (compared nutrients). \<exists>e. comparison r n = Some e \<and>
              food1_value e = nutrient_of db a n \<and> food2_value e = nutrient_of db b n \<and>
              difference e = nutrient_of db a n - nutrient_of db b n \<and>
              percentage_diff e =
                (if nutrient_of db a n = 0 \<and> nutrient_of db b n = 0 then 0
                 else if nutrient_of db b n \<noteq> 0
                      then ((nutrient_of db a n - nutrient_of db b n) / nutrient_of db b n) * 100
                      else 100) \<and>
              better_food e = (if percentage_diff e > 0 then a else b))"
proof -
  from assms(1,2) obtain ra where ra: "ra \<in> set (rows db)"
      and la: "get_food_nutrition db a = Inr (Some (row_record ra))"
    by (blast dest: present_lookup)
  from assms(1,3) obtain rb where rb: "rb \<in> set (rows db)"
      and lb: "get_food_nutrition db b = Inr (Some (row_record rb))"
    by (blast dest: present_lookup)
  from assms(1) ra rb have cr: "catalog_row ra" "catalog_row rb"
    by (simp_all add: catalog_def list_all_iff)
  let ?fa = "row_record ra" and ?fb = "row_record rb"
  have va: "nutrient_of db a n = float_attr ?fa n" and vb: "nutrient_of db b n = float_attr ?fb n" for n
    using la lb by (simp_all add: nutrient_of_def)
  have num: "getattr ?fa n = Num (float_attr ?fa n) \<and> getattr ?fb n = Num (float_attr ?fb n)"
    if "n \<in> set (compared nutrients)" for n
  proof -
    from that assms(4) have "n \<noteq> ''food_name''" by auto
    with cr obtain x y where "getattr ?fa n = Num x" "getattr ?fb n = Num y"
      by (meson getattr_row_record_numeric)
    then show ?thesis by (simp add: float_attr_def)
  qed
  have each: "\<exists>e. compare_nutrient a b ?fa ?fb n = Inr e \<and>
           food1_value e = float_attr ?fa n \<and> food2_value e = float_attr ?fb n \<and>
           difference e = float_attr ?fa n - float_attr ?fb n \<and>
           percentage_diff e =
             (if float_attr ?fa n = 0 \<and> float_attr ?fb n = 0 then 0
              else if float_attr ?fb n \<noteq> 0
                   then ((float_attr ?fa n - float_attr ?fb n) / float_attr ?fb n) * 100 else 100) \<and>
           better_food e = (if percentage_diff e > 0 then a else b)"
    if "n \<in> set (compared nutrients)" for n
    using num [OF that] by (intro compare_nutrient_numeric) simp_all
  then have "\<forall>n \<in> set (compared nutrients). \<exists>e. compare_nutrient a b ?fa ?fb n = Inr e" by blast
  from compare_loop_result [OF this, of Map.empty]
  obtain c where c: "compare_loop a b ?fa ?fb (compared nutrients) Map.empty = Inr c"
    and i: "\<forall>n \<in> set (compared nutrients). \<exists>e. compare_nutrient a b ?fa ?fb n = Inr e \<and> c n = Some e"
    by blast
  have r: "compare_foods db a b nutrients = Inr \<lparr>food1 = a, food2 = b, comparison = c\<rparr>"
    using la lb c by (simp add: compare_foods_def compared_def Let_def)
  have "\<exists>e. c n = Some e \<and>
              food1_value e = nutrient_of db a n \<and> food2_value e = nutrient_of db b n \<and>
              difference e = nutrient_of db a n - nutrient_of db b n \<and>
              percentage_diff e =
                (if nutrient_of db a n = 0 \<and> nutrient_of db b n = 0 then 0
                 else if nutrient_of db b n \<noteq> 0
                      then ((nutrient_of db a n - nutrient_of db b n) / nutrient_of db b n) * 100
                      else 100) \<and>
              better_food e = (if percentage_diff e > 0 then a else b)"
    if "n \<in> set (compared nutrients)" for n
  proof -
    from i that obtain e where e: "compare_nutrient a b ?fa ?fb n = Inr e" "c n = Some e" by blast
    from each [OF that] e(1) have
      "food1_value e = float_attr ?fa n \<and> food2_value e = float_attr ?fb n \<and>
           difference e = float_attr ?fa n - float_attr ?fb n \<and>
           percentage_diff e =
             (if float_attr ?fa n = 0 \<and> float_attr ?fb n = 0 then 0
              else if float_attr ?fb n \<noteq> 0
                   then ((float_attr ?fa n - float_attr ?fb n) / float_attr ?fb n) * 100 else 100) \<and>
           better_food e = (if percentage_diff e > 0 then a else b)"
      by auto
    with e(2) show ?thesis unfolding va vb by blast
  qed
  with r show ?thesis by simp
qed

lemma percentage_sign:
  fixes x y :: real
  assumes "0 < y"
  shows "(0 < ((x - y) / y) * 100) = (y < x)"
proof -
  have "(0 < ((x - y) / y) * 100) = (0 < (x - y) / y)"
    by (simp only: zero_less_mult_iff) auto
  also have "\<dots> = (0 < x - y)" using assms by (simp only: zero_less_divide_iff) auto
  also have "\<dots> = (y < x)" by auto
  finally show ?thesis .
qed

text \<open>
  C5. For two foods present in a table of the loader's shape and every compared nutrient
  (an attribute other than the name), the comparisons of A with B, of B with A and of A with
  itself all return; the difference of A with B is the negation of the difference of B with A,
  and the difference of A with itself is 0.
\<close>

theorem compare_difference_antisymmetric:
  assumes "catalog db" "present db a" "present db b"
      and "''food_name'' \<notin> set (compared nutrients)"
      and "n \<in> set (compared nutrients)"
  shows "\<exists>ab ba aa e1 e2 e0.
           compare_foods db a b nutrients = Inr ab \<and> comparison ab n = Some e1 \<and>
           compare_foods db b a nutrients = Inr ba \<and> comparison ba n = Some e2 \<and>
           compare_foods db a a nutrients = Inr aa \<and> comparison aa n = Some e0 \<and>
           difference e1 = - difference e2 \<and> difference e0 = 0"
proof -
  from compare_foods_catalog [OF assms(1,2,3,4)] assms(5)
  obtain ab e1 where 1: "compare_foods db a b nutrients = Inr ab" "comparison ab n = Some e1"
      "difference e1 = nutrient_of db a n - nutrient_of db b n"
    by blast
  from compare_foods_catalog [OF assms(1,3,2,4)] assms(5)
  obtain ba e2 where 2: "compare_foods db b a nutrients = Inr ba" "comparison ba n = Some e2"
      "difference e2 = nutrient_of db b n - nutrient_of db a n"
    by blast
  from compare_foods_catalog [OF assms(1,2,2,4)] assms(5)
  obtain aa e0 where 3: "compare_foods db a a nutrients = Inr aa" "comparison aa n = Some e0"
      "difference e0 = nutrient_of db a n - nutrient_of db a n"
    by blast
  from 1 2 3 show ?thesis by simp
qed

text \<open>
  C6. For two foods present in a table of the loader's shape and every compared nutrient whose
  two values are not negative (the invariant of the food records), the comparison designates
  as better food the first food when its value is the larger, the second food when its value is
  the larger, and in every case the first food exactly when the percentage difference is
  positive.
\<close>

theorem better_food_has_larger_value:
  assumes "catalog db" "present db a" "present db b"
      and "''food_name'' \<notin> set (compared nutrients)"
      and "n \<in> set (compared nutrients)"
      and "0 \<le> nutrient_of db a n" "0 \<le> nutrient_of db b n"
  shows "\<exists>r e. compare_foods db a b nutrients = Inr r \<and> comparison r n = Some e \<and>
           food1_value e = nutrient_of db a n \<and> food2_value e = nutrient_of db b n \<and>
           (nutrient_of db a n > nutrient_of db b n \<longrightarrow> better_food e = a) \<and>
           (nutrient_of db a n < nutrient_of db b n \<longrightarrow> better_food e = b) \<and>
           better_food e = (if percentage_diff e > 0 then a else b)"
proof -
  let ?x = "nutrient_of db a n" and ?y = "nutrient_of db b n"
  from compare_foods_catalog [OF assms(1,2,3,4)] assms(5)
  obtain r e where r: "compare_foods db a b nutrients = Inr r" "comparison r n = Some e"
      and v: "food1_value e = ?x" "food2_value e = ?y"
      and p: "percentage_diff e =
                (if ?x = 0 \<and> ?y = 0 then 0
                 else if ?y \<noteq> 0 then ((?x - ?y) / ?y) * 100 else 100)"
      and bf: "better_food e = (if percentage_diff e > 0 then a else b)"
    by blast
  have sign: "(0 < percentage_diff e) = (?y < ?x)" if y: "0 < ?y"
  proof -
    from y have "?y \<noteq> 0" by simp
    then have "percentage_diff e = ((?x - ?y) / ?y) * 100"
      using p by (simp only: if_False if_True simp_thms)
    then show ?thesis by (simp only: percentage_sign [OF y])
  qed
  have gt: "percentage_diff e > 0" if "?x > ?y"
  proof (cases "?y = 0")
    case True
    with that p show ?thesis by simp
  next
    case False
    with assms(7) have "0 < ?y" by simp
    from sign [OF this] that show ?thesis by simp
  qed
  have lt: "\<not> percentage_diff e > 0" if "?x < ?y"
  proof -
    from that assms(6) have "0 < ?y" by simp
    from sign [OF this] that show ?thesis by simp
  qed
  from r v bf gt lt show ?thesis by auto
qed

lemma default_compared:
  "''food_name'' \<notin> set (compared None)" "''calories'' \<in> set (compared None)"
  by (simp_all add: compared_def default_nutrients_def)

theorem compare_difference_antisymmetric_witness:
  "\<exists>ab ba aa e1 e2 e0.
     compare_foods sample_db ''Apple'' ''Banana'' None = Inr ab \<and> comparison ab ''calories'' = Some e1 \<and>
     compare_foods sample_db ''Banana'' ''Apple'' None = Inr ba \<and> comparison ba ''calories'' = Some e2 \<and>
     compare_foods sample_db ''Apple'' ''Apple'' None = Inr aa \<and> comparison aa ''calories'' = Some e0 \<and>
     difference e1 = - difference e2 \<and> difference e0 = 0"
  by (rule compare_difference_antisymmetric
        [OF catalog_sample_db present_sample(1) present_sample(2) default_compared])

theorem better_food_has_larger_value_witness:
  "\<exists>r e. compare_foods sample_db ''Apple'' ''Banana'' None = Inr r \<and>
     comparison r ''calories'' = Some e \<and>
     food1_value e = 52 \<and> food2_value e = 89 \<and> better_food e = ''Banana''"
proof -
  have a: "0 \<le> nutrient_of sample_db ''Apple'' ''calories''"
    and b: "0 \<le> nutrient_of sample_db ''Banana'' ''calories''"
    by (simp_all add: nutrient_of_sample)
  from better_food_has_larger_value
         [OF catalog_sample_db present_sample(1) present_sample(2) default_compared a b]
  show ?thesis by (auto simp: nutrient_of_sample)
qed

section \<open>Similar foods\<close>

lemma length_py_slice_to: "0 \<le> k \<Longrightarrow> length (py_slice_to xs k) = min (nat k) (length xs)"
  by (simp add: py_slice_to_def)

lemma similarities_loop_no_name_column:
  "map_of row ''food_name'' = None \<Longrightarrow>
     similarities_loop food t (row # rs) acc = Inl (KeyError ''food_name'')"
  by (simp add: series_get_def)

lemma find_similar_no_name_column:
  assumes "catalog db" "present db food"
      and "\<forall>r \<in> set (rows db). map_of r ''food_name'' = None"
  shows "find_similar_foods db food None k = Inl (KeyError ''food_name'')"
proof -
  from assms(1,2) obtain r where "r \<in> set (rows db)"
      and l: "get_food_nutrition db food = Inr (Some (row_record r))"
    by (blast dest: present_lookup)
  then obtain row rs where rows: "rows db = row # rs" by (cases "rows db") auto
  with assms(3) have "map_of row ''food_name'' = None" by simp
  then show ?thesis
    using l rows by (simp add: find_similar_foods_def series_get_def)
qed

lemma similarities_loop_excludes:
  "similarities_loop food t rs acc = Inr sims \<Longrightarrow> Str food \<notin> fst ` set acc \<Longrightarrow>
     Str food \<notin> fst ` set sims"
proof (induction rs arbitrary: acc)
  case Nil
  then show ?case by simp
next
  case (Cons row rs)
  from Cons.prems(1) obtain name where n: "series_get row ''food_name'' = Inr name"
    by (cases "series_get row ''food_name''") auto
  show ?case
  proof (cases "name = Str food")
    case True
    with Cons n show ?thesis by simp
  next
    case False
    with Cons.prems(1) n obtain score where
      "similarities_loop food t rs (acc @ [(name, score)]) = Inr sims"
      by (auto split: sum.splits)
    moreover from False Cons.prems(2) have "Str food \<notin> fst ` set (acc @ [(name, score)])" by auto
    ultimately show ?thesis by (rule Cons.IH)
  qed
qed

lemma sorted_py_slice_to: "sorted (map f xs) \<Longrightarrow> sorted (map f (py_slice_to xs k))"
  by (simp add: py_slice_to_def take_map [symmetric] sorted_wrt_take del: take_map)

lemma set_py_slice_to: "set (py_slice_to xs k) \<subseteq> set xs"
  by (auto simp: py_slice_to_def dest: in_set_takeD)

lemma find_similar_returned:
  assumes "find_similar_foods db food category k = Inr res"
  shows "Str food \<notin> set res \<and> (0 \<le> k \<longrightarrow> length res \<le> nat k) \<and>
         (\<exists>ranked :: (cell \<times> real) list. res = map fst ranked \<and> sorted (map snd ranked))"
proof (cases "res = []")
  case True
  then show ?thesis by simp
next
  case False
  with assms obtain t rs sims where
      "similarities_loop food t rs [] = Inr sims"
      and res: "res = map fst (py_slice_to (sort_key snd sims) k)"
    unfolding find_similar_foods_def
    by (fastforce split: sum.splits option.splits)
  then have "Str food \<notin> fst ` set sims" by (auto dest: similarities_loop_excludes)
  then have a: "Str food \<notin> set res"
    unfolding res using set_py_slice_to [of "sort_key snd sims" k] by auto
  have b: "0 \<le> k \<longrightarrow> length res \<le> nat k"
    by (simp add: res length_py_slice_to)
  have c: "sorted (map snd (py_slice_to (sort_key snd sims) k))"
    by (rule sorted_py_slice_to) simp
  from res c have "\<exists>ranked :: (cell \<times> real) list. res = map fst ranked \<and> sorted (map snd ranked)"
    by blast
  with a b show ?thesis by (intro conjI)
qed

lemma sample_row_no_food_name: "map_of (sample_row name a b c d e) ''food_name'' = None"
  by (simp add: sample_row_def map_of_map_restrict nutrient_columns_def nutrient_fields_def)

text \<open>
  On a table that has both sets of columns the function returns, but the row of the food is
  skipped only when its \<^verbatim>\<open>food_name\<close> cell equals the argument exactly, while the lookup
  ignores case: asked for \<open>apple\<close>, the function ranks the row \<open>Apple\<close> itself first.
\<close>

lemma mixed_row_food: "map_of (mixed_row name a b c d e) ''food'' = Some (Str name)"
  by (simp add: mixed_row_def sample_row_food)

lemma mixed_row_column:
  "k \<in> set nutrient_columns \<Longrightarrow>
     map_of (mixed_row name a b c d e) k = map_of (sample_row name a b c d e) k"
  using sample_row_column [of k name a b c d e]
  by (auto simp: mixed_row_def)

lemma catalog_row_mixed: "catalog_row (mixed_row name a b c d e)"
  using catalog_row_sample [of name a b c d e]
  by (simp add: catalog_row_def list_all_iff series_get_default_def mixed_row_food
        sample_row_food mixed_row_column)

lemma catalog_mixed_db: "catalog mixed_db"
  by (simp add: catalog_def mixed_db_def catalog_row_mixed)

lemma lookup_apple_mixed:
  "get_food_nutrition mixed_db ''apple'' =
     Inr (Some (row_record (mixed_row ''Apple'' 52 0.3 14 0.2 2.4)))"
  by (rule lookup_found [OF catalog_mixed_db])
     (simp add: mixed_db_def mixed_row_food lower_def lower_char_def)

lemma mixed_attrs:
  "getattr (row_record (mixed_row name a b c d e)) ''calories'' = Num a"
  "getattr (row_record (mixed_row name a b c d e)) ''protein'' = Num b"
  "getattr (row_record (mixed_row name a b c d e)) ''carbs'' = Num c"
  "getattr (row_record (mixed_row name a b c d e)) ''fat'' = Num d"
  "getattr (row_record (mixed_row name a b c d e)) ''fiber'' = Num e"
  by (simp_all add: getattr_def map_of_row_record nutrient_fields_def series_get_default_def
        mixed_row_def sample_row_def nutrient_columns_def)

lemma mixed_lower:
  "series_get (mixed_row name a b c d e) ''food_name'' = Inr (Str name)"
  "series_get (mixed_row name a b c d e) ''calories'' = Inr (Num a)"
  "series_get (mixed_row name a b c d e) ''protein'' = Inr (Num b)"
  "series_get (mixed_row name a b c d e) ''carbs'' = Inr (Num c)"
  "series_get (mixed_row name a b c d e) ''fat'' = Inr (Num d)"
  "series_get (mixed_row name a b c d e) ''fiber'' = Inr (Num e)"
  by (simp_all add: series_get_def mixed_row_def sample_row_def map_of_map_restrict
        nutrient_columns_def nutrient_fields_def)

lemma find_similar_other_case:
  "find_similar_foods mixed_db ''apple'' None 5 = Inr [Str ''Apple'', Str ''Banana'']"
proof -
  have "rows mixed_db = [mixed_row ''Apple'' 52 0.3 14 0.2 2.4, mixed_row ''Banana'' 89 1.1 23 0.3 2.6]"
    by (simp add: mixed_db_def)
  then show ?thesis
    by (simp add: find_similar_foods_def lookup_apple_mixed mixed_lower mixed_attrs
          key_nutrients_def py_slice_to_def)
qed

text \<open>
  C7. Similar foods of a food that is present: the claim has the function return a ranked
  sequence. On the sample table, which has the columns the lookup reads, the call for Apple
  raises KeyError: the loop reads the columns \<^verbatim>\<open>food_name\<close>, \<^verbatim>\<open>calories\<close>, ... where
  the lookup reads \<^verbatim>\<open>food\<close>, \<^verbatim>\<open>Caloric Value\<close>, ... (lemma \<open>find_similar_no_name_column\<close>:
  so does every call for a present food on a table without a \<^verbatim>\<open>food_name\<close> column). Whatever
  the function does return has the three properties of the claim, the first for the exact
  string of the argument only (lemmas \<open>find_similar_returned\<close>, \<open>find_similar_other_case\<close>).
\<close>

theorem find_similar_raises_on_catalog:
  "find_similar_foods sample_db ''Apple'' None 5 = Inl (KeyError ''food_name'')"
  by (rule find_similar_no_name_column [OF catalog_sample_db present_sample(1)])
     (simp add: sample_db_def sample_row_no_food_name)

section \<open>Recommendations\<close>






lemma lower_male: "lower ''male'' = ''male''" "lower ''sedentary'' = ''sedentary''"
  by (simp_all add: lower_def lower_char_def)

lemma analyze_empty: "analyze_daily_intake db [] [] = Inr initial_totals"
  by (simp add: analyze_daily_intake_def)

lemma initial_get: "dict_get initial_totals k = 0"
  by (simp add: dict_get_def initial_totals_apply)

lemma menu_gaps_eq: "calculate_nutritional_gaps initial_totals full_profile = Inr menu_gaps"
  by (simp add: calculate_nutritional_gaps_def profile_get_def full_profile_def
        calculate_calorie_needs_def calculate_protein_needs_def lower_male
        activity_multipliers_def initial_get menu_gaps_def)

lemma app_profile_fails:
  "calculate_nutritional_gaps initial_totals app_profile = Inl (KeyError ''activity_level'')"
  by (simp add: calculate_nutritional_gaps_def profile_get_def app_profile_def)





lemma app_run:
  "get_personalized_recommendations db app_profile [] None 5 = Inl (KeyError ''activity_level'')"
  by (simp add: get_personalized_recommendations_def analyze_empty app_profile_fails)




lemma score_keys_result:
  "score_keys gaps rs = Inr keyed \<Longrightarrow>
     map snd keyed = rs \<and> (\<forall>(k, food) \<in> set keyed. nutritional_gap_score food gaps 0 = Inr k)"
  by (induction rs arbitrary: keyed) (auto split: sum.splits)








lemma gaps_missing_key:
  assumes "map_of p ''age'' = None \<or> map_of p ''weight'' = None \<or> map_of p ''height'' = None \<or>
           map_of p ''gender'' = None \<or> map_of p ''activity_level'' = None"
  shows "\<exists>k. calculate_nutritional_gaps cn p = Inl (KeyError k)"
  using assms
  by (auto simp: calculate_nutritional_gaps_def profile_get_def split: option.splits)

lemma recommend_missing_key:
  assumes "map_of p ''age'' = None \<or> map_of p ''weight'' = None \<or> map_of p ''height'' = None \<or>
           map_of p ''gender'' = None \<or> map_of p ''activity_level'' = None"
  shows "\<exists>k. get_personalized_recommendations db p [] restrictions n = Inl (KeyError k)"
proof -
  from gaps_missing_key [OF assms, of initial_totals]
  obtain k where "calculate_nutritional_gaps initial_totals p = Inl (KeyError k)" by blast
  then show ?thesis
    by (simp add: get_personalized_recommendations_def analyze_empty)
qed

lemma gaps_of_empty_intake:
  assumes "map_of p ''age'' = Some (Num a)" "map_of p ''weight'' = Some (Num w)"
      and "map_of p ''height'' = Some (Num h)" "map_of p ''gender'' = Some (Str g)"
      and "map_of p ''activity_level'' = Some (Str l)"
  shows "calculate_nutritional_gaps initial_totals p =
           Inr [(''calories'',
                 (if lower g = ''male'' then 10 * w + 6.25 * h - 5 * a + 5
                  else 10 * w + 6.25 * h - 5 * a - 161) *
                 (case map_of activity_multipliers (lower l) of None \<Rightarrow> 1.55 | Some m \<Rightarrow> m)),
                (''protein'', w * 1.0),
                (''fiber'', 25)]"
  using assms
  by (simp add: calculate_nutritional_gaps_def profile_get_def calculate_calorie_needs_def
        calculate_protein_needs_def initial_get Let_def)

text \<open>
  With the five keys present, the engine returns on the sample table, and returns nothing:
  no row has the columns \<^verbatim>\<open>calories\<close>, \<^verbatim>\<open>protein\<close>, \<^verbatim>\<open>fiber\<close> that the gap test reads
  with \<^verbatim>\<open>food.get(nutrient, 0)\<close>.
\<close>

lemma sample_row_no_lowercase:
  "map_of (sample_row name a b c d e) ''calories'' = None"
  "map_of (sample_row name a b c d e) ''protein'' = None"
  "map_of (sample_row name a b c d e) ''fiber'' = None"
  by (simp_all add: sample_row_def map_of_map_restrict nutrient_columns_def nutrient_fields_def)

lemma sample_never_survives:
  "candidate_survives db menu_gaps intake (sample_row name a b c d e) = Inr False"
  by (simp add: candidate_survives_def addresses_nutritional_gaps_def menu_gaps_def
        series_get_default_def sample_row_no_lowercase)

lemma recommend_sample_empty:
  "get_personalized_recommendations sample_db full_profile [] None 5 = Inr []"
  by (simp add: get_personalized_recommendations_def analyze_empty menu_gaps_eq
        sample_db_def sample_never_survives sort_reverse_def py_slice_to_def)

text \<open>
  C9. An empty intake list: the claim has the engine not fail for every profile. With the
  profile that \<^verbatim>\<open>nutrigenie_app.py\<close> builds, which has the key \<^verbatim>\<open>activity\<close>, the engine
  raises KeyError on any table: \<open>_calculate_nutritional_gaps\<close> reads
  \<^verbatim>\<open>user_profile['activity_level']\<close>, and the defaults that the engine computes with
  \<^verbatim>\<open>user_profile.get\<close> are never used (lemma \<open>recommend_missing_key\<close>: so does every profile
  that lacks one of the five keys). For a profile with the five keys the gaps on an empty
  intake are the full needs (lemma \<open>gaps_of_empty_intake\<close>).
\<close>

theorem recommend_empty_intake_raises:
  "get_personalized_recommendations sample_db app_profile [] None 5 =
     Inl (KeyError ''activity_level'')"
  by (rule app_run)

end
